theory Spec2Isabelle
  imports Complex_Main "HOL-Library.Word" "HOL-Library.Sublist"
begin

section \<open>The MNIST on-device training notebook\<close>

text \<open>
  The notebook \<^verbatim>\<open>on_device_training/desktop/python/mnist.ipynb\<close> sequences calls into
  the training runtime (\<^verbatim>\<open>Module\<close>, \<^verbatim>\<open>Optimizer\<close>, \<^verbatim>\<open>InferenceSession\<close>) and into the
  metric library. Its own code is the helper \<^verbatim>\<open>get_pred\<close>, the loops \<^verbatim>\<open>train\<close> and
  \<^verbatim>\<open>test\<close>, the epoch loop and the inference cells. The collaborators are parameters
  of the model: records of functions over an abstract collaborator state. Every
  statement that reaches a collaborator, appends to \<^verbatim>\<open>losses\<close> or prints is logged as an
  event, so that the order of the calls can be stated. A floating-point value is
  modelled by the real number it denotes (NaN and the infinities have no counterpart).
  The arithmetic of \<^verbatim>\<open>sum(losses)/len(losses)\<close> is a parameter of the model, so that
  nothing is assumed about its rounding.
\<close>

subsection \<open>Errors, tensors and arrays\<close>

datatype error =
    ArtifactLoadFailure
  | ShapeMismatchFailure
  | RuntimeExecutionFailure
  | InvalidArgument
  | TorchRuntimeError
  | ZeroDivisionError
  | ValueError
  | IndexError
  | KeyError
  | TypeError
  | StopIteration

text \<open>A torch tensor: its shape and its elements in row-major order.\<close>

datatype tensor = Tensor (shape: "nat list") (vals: "real list")

text \<open>A two-dimensional numpy array, as \<^verbatim>\<open>model(...)\<close> and \<^verbatim>\<open>session.run\<close> return for
  the logits: the number of columns and the rows.\<close>

datatype ndarray = NDArray (ncols: nat) (rows: "real list list")

definition wf_ndarray :: "ndarray \<Rightarrow> bool" where
  "wf_ndarray a = list_all (\<lambda>r. length r = ncols a) (rows a)"

text \<open>\<^verbatim>\<open>len(t)\<close>: the first dimension; a 0-d tensor has no length.\<close>

definition len :: "tensor \<Rightarrow> error + nat" where
  "len t = (case shape t of [] \<Rightarrow> Inl TypeError | n # _ \<Rightarrow> Inr n)"

text \<open>\<^verbatim>\<open>t.reshape(*shp)\<close>: the same elements under a new shape of the same size.\<close>

definition reshape :: "tensor \<Rightarrow> nat list \<Rightarrow> error + tensor" where
  "reshape t shp =
     (if prod_list shp = length (vals t) then Inr (Tensor shp (vals t))
      else Inl TorchRuntimeError)"

text \<open>\<^verbatim>\<open>t[0]\<close>: the first slice along the first dimension.\<close>

definition index0 :: "tensor \<Rightarrow> error + tensor" where
  "index0 t =
     (case shape t of
        [] \<Rightarrow> Inl IndexError
      | n # rest \<Rightarrow>
          if n = 0 then Inl IndexError
          else Inr (Tensor rest (take (prod_list rest) (vals t))))"

text \<open>\<^verbatim>\<open>target.numpy().astype(np.int32)\<close>: 64-bit labels cut to 32 bits.\<close>

definition astype_int32 :: "64 word list \<Rightarrow> 32 word list" where
  "astype_int32 target = map ucast target"

subsection \<open>\<^verbatim>\<open>get_pred\<close>\<close>

text \<open>\<^verbatim>\<open>np.argmax\<close> on one row: a scan that keeps the best value and its index and moves
  only on a strictly greater value.\<close>

fun argmax_scan :: "real list \<Rightarrow> nat \<Rightarrow> real \<Rightarrow> nat \<Rightarrow> nat" where
  "argmax_scan [] i mv mi = mi"
| "argmax_scan (x # xs) i mv mi =
     (if mv < x then argmax_scan xs (Suc i) x i else argmax_scan xs (Suc i) mv mi)"

definition argmax :: "real list \<Rightarrow> nat" where
  "argmax r = (case r of [] \<Rightarrow> 0 | x # xs \<Rightarrow> argmax_scan xs 1 x 0)"

text \<open>\<^verbatim>\<open>np.argmax(logits, axis=1)\<close>: reducing along an axis of size zero raises
  \<^verbatim>\<open>ValueError\<close>.\<close>

definition get_pred :: "ndarray \<Rightarrow> error + nat list" where
  "get_pred logits =
     (if ncols logits = 0 then Inl ValueError else Inr (map argmax (rows logits)))"

subsection \<open>Events and collaborators\<close>

datatype event =
    ModelTrain
  | ModelEval
  | ModelCall tensor "32 word list"
  | OptimizerStep
  | ResetGrad
  | LossAppend real
  | MetricLoad string
  | MetricAddBatch "64 word list" "nat list"
  | MetricCompute
  | PrintTrain int real
  | PrintTest int real real
  | ExportModel string "string list"
  | NewSession string "string list"
  | SessionRun "string list" "(string \<times> tensor) list"
  | Imshow tensor
  | PltShow
  | PrintLabel "nat list"

text \<open>A computation's outcome: the events it logged, and an error or a value.\<close>

type_synonym 'a traced = "event list \<times> (error + 'a)"

definition bind :: "'a traced \<Rightarrow> ('a \<Rightarrow> 'b traced) \<Rightarrow> 'b traced" where
  "bind m f =
     (case m of
        (tr, Inl e) \<Rightarrow> (tr, Inl e)
      | (tr, Inr v) \<Rightarrow> (case f v of (tr2, r) \<Rightarrow> (tr @ tr2, r)))"

text \<open>An inference session: the graph's declared inputs and outputs, and \<^verbatim>\<open>run\<close>.\<close>

record session =
  get_inputs :: "string list"
  get_outputs :: "string list"
  run :: "string list \<Rightarrow> (string \<times> tensor) list \<Rightarrow> error + ndarray list"

text \<open>The training runtime over its state \<open>'s\<close> (checkpoint, gradients, mode, files).\<close>

record 's runtime =
  model_train :: "'s \<Rightarrow> 's"
  model_eval :: "'s \<Rightarrow> 's"
  model_call :: "'s \<Rightarrow> tensor \<Rightarrow> 32 word list \<Rightarrow> error + ((real \<times> ndarray) \<times> 's)"
  optimizer_step :: "'s \<Rightarrow> error + 's"
  reset_grad :: "'s \<Rightarrow> error + 's"
  export_model_for_inferencing :: "'s \<Rightarrow> string \<Rightarrow> string list \<Rightarrow> error + 's"
  inference_session :: "'s \<Rightarrow> string \<Rightarrow> string list \<Rightarrow> error + session"

text \<open>The metric library over the aggregator's state \<open>'m\<close>.\<close>

record 'm metric_api =
  metric_load :: "string \<Rightarrow> error + 'm"
  add_batch :: "'m \<Rightarrow> 64 word list \<Rightarrow> nat list \<Rightarrow> error + 'm"
  compute :: "'m \<Rightarrow> error + (string \<rightharpoonup> real)"

text \<open>The data loaders: finite and restartable, so each is the list of its batches
  (features, labels).\<close>

type_synonym batch = "tensor \<times> 64 word list"

record loaders =
  train_loader :: "batch list"
  test_loader :: "batch list"

subsection \<open>The training loop\<close>

text \<open>\<^verbatim>\<open>[data.reshape(len(data),784).numpy(), target.numpy().astype(np.int32)]\<close>\<close>

definition forward_inputs :: "batch \<Rightarrow> error + (tensor \<times> 32 word list)" where
  "forward_inputs b =
     (case len (fst b) of
        Inl e \<Rightarrow> Inl e
      | Inr n \<Rightarrow>
          (case reshape (fst b) [n, 784] of
             Inl e \<Rightarrow> Inl e
           | Inr x \<Rightarrow> Inr (x, astype_int32 (snd b))))"

text \<open>One iteration of the loop in \<^verbatim>\<open>train\<close>, up to \<^verbatim>\<open>losses.append\<close>.\<close>

definition train_batch :: "'s runtime \<Rightarrow> 's \<Rightarrow> batch \<Rightarrow> (real \<times> 's) traced" where
  "train_batch rt s b =
     (case forward_inputs b of
        Inl e \<Rightarrow> ([], Inl e)
      | Inr (x, t) \<Rightarrow>
          (case model_call rt s x t of
             Inl e \<Rightarrow> ([ModelCall x t], Inl e)
           | Inr ((train_loss, _), s1) \<Rightarrow>
               (case optimizer_step rt s1 of
                  Inl e \<Rightarrow> ([ModelCall x t, OptimizerStep], Inl e)
                | Inr s2 \<Rightarrow>
                    (case reset_grad rt s2 of
                       Inl e \<Rightarrow> ([ModelCall x t, OptimizerStep, ResetGrad], Inl e)
                     | Inr s3 \<Rightarrow>
                         ([ModelCall x t, OptimizerStep, ResetGrad, LossAppend train_loss],
                          Inr (train_loss, s3))))))"

fun train_loop :: "'s runtime \<Rightarrow> 's \<Rightarrow> real list \<Rightarrow> batch list \<Rightarrow> (real list \<times> 's) traced" where
  "train_loop rt s losses [] = ([], Inr (losses, s))"
| "train_loop rt s losses (b # bs) =
     (case train_batch rt s b of
        (tr, Inl e) \<Rightarrow> (tr, Inl e)
      | (tr, Inr (l, s')) \<Rightarrow>
          (case train_loop rt s' (losses @ [l]) bs of (tr2, r) \<Rightarrow> (tr @ tr2, r)))"

text \<open>The floating-point arithmetic the interpreter applies to the losses: \<^verbatim>\<open>a + b\<close>, and
  \<^verbatim>\<open>a / n\<close> for an integer \<open>n\<close>. Both round, so neither is the operation on reals.\<close>

record float_ops =
  fadd :: "real \<Rightarrow> real \<Rightarrow> real"
  fdiv :: "real \<Rightarrow> nat \<Rightarrow> real"

text \<open>\<^verbatim>\<open>sum(losses)\<close>: from the integer 0, left to right.\<close>

definition py_sum :: "float_ops \<Rightarrow> real list \<Rightarrow> real" where
  "py_sum fl xs = foldl (fadd fl) 0 xs"

text \<open>\<^verbatim>\<open>sum(losses)/len(losses)\<close>; for an empty list this is the integer division
  \<^verbatim>\<open>0/0\<close>.\<close>

definition mean_loss :: "float_ops \<Rightarrow> real list \<Rightarrow> error + real" where
  "mean_loss fl losses =
     (if length losses = 0 then Inl ZeroDivisionError
      else Inr (fdiv fl (py_sum fl losses) (length losses)))"

definition train :: "float_ops \<Rightarrow> 's runtime \<Rightarrow> loaders \<Rightarrow> int \<Rightarrow> 's \<Rightarrow> 's traced" where
  "train fl rt ld epoch s =
     bind ([ModelTrain], Inr (model_train rt s)) (\<lambda>s0.
     bind (train_loop rt s0 [] (train_loader ld)) (\<lambda>(losses, s1).
       (case mean_loss fl losses of
          Inl e \<Rightarrow> ([], Inl e)
        | Inr m \<Rightarrow> ([PrintTrain (epoch + 1) m], Inr s1))))"

subsection \<open>The test loop\<close>

text \<open>One iteration of the loop in \<^verbatim>\<open>test\<close>, up to \<^verbatim>\<open>losses.append\<close>. The arguments of
  \<^verbatim>\<open>add_batch\<close> are evaluated before the call, so a failing \<^verbatim>\<open>get_pred\<close> comes first.\<close>

definition test_batch ::
  "'s runtime \<Rightarrow> 'm metric_api \<Rightarrow> 's \<Rightarrow> 'm \<Rightarrow> batch \<Rightarrow> (real \<times> 's \<times> 'm) traced" where
  "test_batch rt ma s m b =
     (case forward_inputs b of
        Inl e \<Rightarrow> ([], Inl e)
      | Inr (x, t) \<Rightarrow>
          (case model_call rt s x t of
             Inl e \<Rightarrow> ([ModelCall x t], Inl e)
           | Inr ((test_loss, logits), s1) \<Rightarrow>
               (case get_pred logits of
                  Inl e \<Rightarrow> ([ModelCall x t], Inl e)
                | Inr preds \<Rightarrow>
                    (case add_batch ma m (snd b) preds of
                       Inl e \<Rightarrow> ([ModelCall x t, MetricAddBatch (snd b) preds], Inl e)
                     | Inr m1 \<Rightarrow>
                         ([ModelCall x t, MetricAddBatch (snd b) preds, LossAppend test_loss],
                          Inr (test_loss, s1, m1))))))"

fun test_loop ::
  "'s runtime \<Rightarrow> 'm metric_api \<Rightarrow> 's \<Rightarrow> 'm \<Rightarrow> real list \<Rightarrow> batch list
     \<Rightarrow> (real list \<times> 's \<times> 'm) traced" where
  "test_loop rt ma s m losses [] = ([], Inr (losses, s, m))"
| "test_loop rt ma s m losses (b # bs) =
     (case test_batch rt ma s m b of
        (tr, Inl e) \<Rightarrow> (tr, Inl e)
      | (tr, Inr (l, s', m')) \<Rightarrow>
          (case test_loop rt ma s' m' (losses @ [l]) bs of (tr2, r) \<Rightarrow> (tr @ tr2, r)))"

text \<open>The f-string of the final \<^verbatim>\<open>print\<close> evaluates \<^verbatim>\<open>sum(losses)/len(losses)\<close> before
  \<^verbatim>\<open>metrics["accuracy"]\<close>; both come after \<^verbatim>\<open>metric.compute()\<close>. The loop reads
  \<^verbatim>\<open>train_loader\<close>, as the source does.\<close>

definition test ::
  "float_ops \<Rightarrow> 's runtime \<Rightarrow> 'm metric_api \<Rightarrow> loaders \<Rightarrow> int \<Rightarrow> 's \<Rightarrow> 's traced" where
  "test fl rt ma ld epoch s =
     bind ([ModelEval], Inr (model_eval rt s)) (\<lambda>s0.
     bind ([MetricLoad ''accuracy''], metric_load ma ''accuracy'') (\<lambda>m0.
     bind (test_loop rt ma s0 m0 [] (train_loader ld)) (\<lambda>(losses, s1, m1).
     bind ([MetricCompute], compute ma m1) (\<lambda>metrics.
       (case mean_loss fl losses of
          Inl e \<Rightarrow> ([], Inl e)
        | Inr l \<Rightarrow>
            (case metrics ''accuracy'' of
               None \<Rightarrow> ([], Inl KeyError)
             | Some acc \<Rightarrow> ([PrintTest (epoch + 1) l acc], Inr s1)))))))"

subsection \<open>The epoch loop\<close>

text \<open>\<^verbatim>\<open>for epoch in range(5): train(epoch); test(epoch)\<close>\<close>

fun epoch_loop ::
  "float_ops \<Rightarrow> 's runtime \<Rightarrow> 'm metric_api \<Rightarrow> loaders \<Rightarrow> 's \<Rightarrow> int list \<Rightarrow> 's traced" where
  "epoch_loop fl rt ma ld s [] = ([], Inr s)"
| "epoch_loop fl rt ma ld s (epoch # epochs) =
     (case train fl rt ld epoch s of
        (tr1, Inl e) \<Rightarrow> (tr1, Inl e)
      | (tr1, Inr s1) \<Rightarrow>
          (case test fl rt ma ld epoch s1 of
             (tr2, Inl e) \<Rightarrow> (tr1 @ tr2, Inl e)
           | (tr2, Inr s2) \<Rightarrow>
               (case epoch_loop fl rt ma ld s2 epochs of (tr3, r) \<Rightarrow> (tr1 @ tr2 @ tr3, r))))"

definition range5 :: "int list" where
  "range5 = [0, 1, 2, 3, 4]"

subsection \<open>Inferencing\<close>

text \<open>\<^verbatim>\<open>xs[0]\<close> on a Python list.\<close>

definition first :: "'a list \<Rightarrow> error + 'a" where
  "first xs = (case xs of [] \<Rightarrow> Inl IndexError | x # _ \<Rightarrow> Inr x)"

text \<open>\<^verbatim>\<open>next(iter(test_loader))[0][0]\<close>: the first sample of the first test batch.\<close>

definition first_test_example :: "loaders \<Rightarrow> error + tensor" where
  "first_test_example ld =
     (case test_loader ld of
        [] \<Rightarrow> Inl StopIteration
      | b # _ \<Rightarrow> index0 (fst b))"

text \<open>\<^verbatim>\<open>plt.imshow(img, cmap='gray')\<close> takes an array of shape (M, N), (M, N, 1),
  (M, N, 3) or (M, N, 4) and raises \<^verbatim>\<open>TypeError\<close> on any other shape.\<close>

definition imshow :: "tensor \<Rightarrow> error + unit" where
  "imshow img =
     (case shape img of
        [m, n] \<Rightarrow> Inr ()
      | [m, n, c] \<Rightarrow> if c = 1 \<or> c = 3 \<or> c = 4 then Inr () else Inl TypeError
      | _ \<Rightarrow> Inl TypeError)"

text \<open>The two inference cells: export, session, one example, one \<^verbatim>\<open>run\<close>, the plot and the
  printed prediction.\<close>

definition run_inferencing :: "'s runtime \<Rightarrow> loaders \<Rightarrow> 's \<Rightarrow> nat list traced" where
  "run_inferencing rt ld s =
     bind ([ExportModel ''data/inference_model.onnx'' [''output-0'']],
           export_model_for_inferencing rt s ''data/inference_model.onnx'' [''output-0'']) (\<lambda>s1.
     bind ([NewSession ''data/inference_model.onnx'' [''CPUExecutionProvider'']],
           inference_session rt s1 ''data/inference_model.onnx'' [''CPUExecutionProvider'']) (\<lambda>sess.
     bind ([], first_test_example ld) (\<lambda>data.
     bind ([], first (get_inputs sess)) (\<lambda>input_name.
     bind ([], first (get_outputs sess)) (\<lambda>output_name.
     bind ([], reshape data [1, 784]) (\<lambda>x.
     bind ([SessionRun [output_name] [(input_name, x)]],
           run sess [output_name] [(input_name, x)]) (\<lambda>output.
     bind ([], index0 data) (\<lambda>img.
     bind ([Imshow img], imshow img) (\<lambda>_.
     bind ([PltShow], Inr ()) (\<lambda>_.
     bind ([], first output) (\<lambda>out0.
     bind ([], get_pred out0) (\<lambda>label.
       ([PrintLabel label], Inr label)))))))))))))"

text \<open>The notebook from the epoch loop on, started in the state the runtime is in
  after the module and the optimizer were created.\<close>

definition notebook ::
  "float_ops \<Rightarrow> 's runtime \<Rightarrow> 'm metric_api \<Rightarrow> loaders \<Rightarrow> 's \<Rightarrow> nat list traced" where
  "notebook fl rt ma ld s =
     bind (epoch_loop fl rt ma ld s range5) (\<lambda>s1. run_inferencing rt ld s1)"

subsection \<open>Reading a trace\<close>

text \<open>The losses appended during a run, in the order of the appends.\<close>

fun appended :: "event list \<Rightarrow> real list" where
  "appended [] = []"
| "appended (LossAppend l # es) = l # appended es"
| "appended (_ # es) = appended es"

text \<open>The calls that reach the module and the optimizer inside the loops.\<close>

fun is_runtime_op :: "event \<Rightarrow> bool" where
  "is_runtime_op (ModelCall _ _) = True"
| "is_runtime_op OptimizerStep = True"
| "is_runtime_op ResetGrad = True"
| "is_runtime_op _ = False"

fun is_model_call :: "event \<Rightarrow> bool" where
  "is_model_call (ModelCall _ _) = True"
| "is_model_call _ = False"

fun is_session_run :: "event \<Rightarrow> bool" where
  "is_session_run (SessionRun _ _) = True"
| "is_session_run _ = False"

text \<open>What a training iteration on batch \<open>b\<close> asks of the runtime when nothing fails:
  forward and backward pass, optimizer step, gradient reset.\<close>

definition batch_ops :: "batch \<Rightarrow> event list" where
  "batch_ops b =
     (case forward_inputs b of
        Inl _ \<Rightarrow> []
      | Inr (x, t) \<Rightarrow> [ModelCall x t, OptimizerStep, ResetGrad])"

text \<open>The one call of an evaluation iteration on batch \<open>b\<close>.\<close>

definition batch_call :: "batch \<Rightarrow> event list" where
  "batch_call b =
     (case forward_inputs b of
        Inl _ \<Rightarrow> []
      | Inr (x, t) \<Rightarrow> [ModelCall x t])"

text \<open>What the logged calls do to the runtime: \<open>replay\<close> applies the runtime's own
  functions to the state, call by call in the order of the trace, and collects what
  the forward calls return. It fails where the runtime fails.\<close>

fun replay :: "'s runtime \<Rightarrow> 's \<Rightarrow> event list \<Rightarrow> error + ((real \<times> ndarray) list \<times> 's)" where
  "replay rt s [] = Inr ([], s)"
| "replay rt s (ModelTrain # es) = replay rt (model_train rt s) es"
| "replay rt s (ModelEval # es) = replay rt (model_eval rt s) es"
| "replay rt s (ModelCall x t # es) =
     (case model_call rt s x t of
        Inl e \<Rightarrow> Inl e
      | Inr (r, s1) \<Rightarrow>
          (case replay rt s1 es of
             Inl e \<Rightarrow> Inl e
           | Inr (rs, s2) \<Rightarrow> Inr (r # rs, s2)))"
| "replay rt s (OptimizerStep # es) =
     (case optimizer_step rt s of Inl e \<Rightarrow> Inl e | Inr s1 \<Rightarrow> replay rt s1 es)"
| "replay rt s (ResetGrad # es) =
     (case reset_grad rt s of Inl e \<Rightarrow> Inl e | Inr s1 \<Rightarrow> replay rt s1 es)"
| "replay rt s (ExportModel path names # es) =
     (case export_model_for_inferencing rt s path names of
        Inl e \<Rightarrow> Inl e
      | Inr s1 \<Rightarrow> replay rt s1 es)"
| "replay rt s (_ # es) = replay rt s es"

text \<open>What the logged calls do to the aggregator: \<open>replay_adds\<close> applies the library's
  own \<^verbatim>\<open>add_batch\<close> for each logged call, in order.\<close>

fun replay_adds :: "'m metric_api \<Rightarrow> 'm \<Rightarrow> event list \<Rightarrow> error + 'm" where
  "replay_adds ma m [] = Inr m"
| "replay_adds ma m (MetricAddBatch refs preds # es) =
     (case add_batch ma m refs preds of Inl e \<Rightarrow> Inl e | Inr m1 \<Rightarrow> replay_adds ma m1 es)"
| "replay_adds ma m (_ # es) = replay_adds ma m es"

text \<open>An aggregator call, and the events an evaluation iteration can log.\<close>

fun is_add_batch :: "event \<Rightarrow> bool" where
  "is_add_batch (MetricAddBatch _ _) = True"
| "is_add_batch _ = False"

fun is_eval_event :: "event \<Rightarrow> bool" where
  "is_eval_event (ModelCall _ _) = True"
| "is_eval_event (MetricAddBatch _ _) = True"
| "is_eval_event (LossAppend _) = True"
| "is_eval_event _ = False"

subsection \<open>Small collaborators for concrete runs\<close>

text \<open>A runtime whose state counts the optimizer steps taken. Its loss falls out of the
  count, its logits always favour class 2, and it refuses a batch whose label count
  differs from its row count. Its sessions declare one input and one output.\<close>

definition toy_logits :: "'a list \<Rightarrow> ndarray" where
  "toy_logits t = NDArray 10 (map (\<lambda>_. [0, 0, 1, 0, 0, 0, 0, 0, 0, 0]) t)"

definition toy_session :: session where
  "toy_session =
     \<lparr>get_inputs = [''input-0''], get_outputs = [''output-0''],
      run = (\<lambda>names feed.
        if names = [''output-0''] then Inr [toy_logits feed] else Inl InvalidArgument)\<rparr>"

definition toy_runtime :: "nat runtime" where
  "toy_runtime =
     \<lparr>model_train = (\<lambda>s. s), model_eval = (\<lambda>s. s),
      model_call = (\<lambda>s x t.
        if shape x = [length t, 784] then Inr ((real s + 1 / 2, toy_logits t), s)
        else Inl ShapeMismatchFailure),
      optimizer_step = (\<lambda>s. Inr (Suc s)),
      reset_grad = (\<lambda>s. Inr s),
      export_model_for_inferencing = (\<lambda>s path names. Inr s),
      inference_session = (\<lambda>s path providers. Inr toy_session)\<rparr>"

text \<open>An accuracy aggregator: hits and total. Like the metric library's, its
  \<^verbatim>\<open>compute\<close> raises when nothing was added.\<close>

definition toy_metric :: "(nat \<times> nat) metric_api" where
  "toy_metric =
     \<lparr>metric_load = (\<lambda>name. if name = ''accuracy'' then Inr (0, 0) else Inl ArtifactLoadFailure),
      add_batch = (\<lambda>m refs preds.
        if length refs = length preds
        then Inr (fst m + length (filter (\<lambda>(r, p). unat r = p) (zip refs preds)),
                  snd m + length refs)
        else Inl ValueError),
      compute = (\<lambda>m.
        if snd m = 0 then Inl ValueError
        else Inr [''accuracy'' \<mapsto> real (fst m) / real (snd m)])\<rparr>"

text \<open>A batch of \<open>n\<close> blank 1x28x28 images with the given labels.\<close>

definition toy_batch :: "nat \<Rightarrow> 64 word list \<Rightarrow> batch" where
  "toy_batch n labels = (Tensor [n, 1, 28, 28] (replicate (n * 784) 0), labels)"

definition toy_loaders :: loaders where
  "toy_loaders = \<lparr>train_loader = [toy_batch 2 [2, 7], toy_batch 1 [2]],
                  test_loader = [toy_batch 1 [5]]\<rparr>"

text \<open>The same aggregator, but with a \<^verbatim>\<open>compute\<close> that answers 0 when nothing was added.\<close>

definition lenient_metric :: "(nat \<times> nat) metric_api" where
  "lenient_metric = toy_metric\<lparr>compute := (\<lambda>m.
      Inr [''accuracy'' \<mapsto> (if snd m = 0 then 0 else real (fst m) / real (snd m))])\<rparr>"

text \<open>Loaders without batches, and loaders that share only the first test batch with
  \<open>toy_loaders\<close>.\<close>

definition no_batches :: loaders where
  "no_batches = \<lparr>train_loader = [], test_loader = []\<rparr>"

definition other_loaders :: loaders where
  "other_loaders = \<lparr>train_loader = [], test_loader = [toy_batch 1 [5], toy_batch 3 [1, 2, 3]]\<rparr>"

text \<open>A runtime that wears out: its forward call fails once two optimizer steps were
  taken. And loaders whose second training batch has two images but one label.\<close>

definition worn_runtime :: "nat runtime" where
  "worn_runtime = toy_runtime\<lparr>model_call := (\<lambda>s x t.
      if s < 2 then model_call toy_runtime s x t else Inl RuntimeExecutionFailure)\<rparr>"

definition bad_loaders :: loaders where
  "bad_loaders = \<lparr>train_loader = [toy_batch 2 [2, 7], toy_batch 2 [4], toy_batch 1 [2]],
                  test_loader = []\<rparr>"

text \<open>Two runtimes that differ from \<open>toy_runtime\<close> in the loss alone: one returns
  \<open>2^53\<close> before the first optimizer step and 1 after it, the other the toy loss plus 1.\<close>

definition steep_runtime :: "nat runtime" where
  "steep_runtime = toy_runtime\<lparr>model_call := (\<lambda>s x t.
      if shape x = [length t, 784]
      then Inr ((if s = 0 then 9007199254740992 else 1, toy_logits t), s)
      else Inl ShapeMismatchFailure)\<rparr>"

definition costly_runtime :: "nat runtime" where
  "costly_runtime = toy_runtime\<lparr>model_call := (\<lambda>s x t.
      if shape x = [length t, 784] then Inr ((real s + 3 / 2, toy_logits t), s)
      else Inl ShapeMismatchFailure)\<rparr>"

subsection \<open>Two arithmetics\<close>

text \<open>Exact arithmetic, as if no operation rounded.\<close>

definition exact_ops :: float_ops where
  "exact_ops = \<lparr>fadd = (\<lambda>a b. a + b), fdiv = (\<lambda>a n. a / real n)\<rparr>"

text \<open>IEEE 754 binary arithmetic with \<open>p\<close> significant bits, rounding to nearest with ties
  to even, without overflow and subnormals: \<open>bit_length\<close> is Python's
  \<^verbatim>\<open>int.bit_length\<close>, \<open>expo x\<close> the exponent \<open>e\<close> with \<open>2^e \<le> |x| < 2^(e+1)\<close>, and
  \<open>round_to p x\<close> the multiple of \<open>2^(e-p+1)\<close> nearest to \<open>x\<close>.\<close>

fun bit_length :: "nat \<Rightarrow> nat" where
  "bit_length n = (if n = 0 then 0 else Suc (bit_length (n div 2)))"

declare bit_length.simps [simp del]

definition pow2 :: "int \<Rightarrow> real" where
  "pow2 e = (if 0 \<le> e then 2 ^ nat e else 1 / 2 ^ nat (- e))"

definition expo :: "real \<Rightarrow> int" where
  "expo x =
     (if 1 \<le> \<bar>x\<bar> then int (bit_length (nat \<lfloor>\<bar>x\<bar>\<rfloor>)) - 1
      else - int (bit_length (nat \<lceil>1 / \<bar>x\<bar>\<rceil> - 1)))"

definition round_half_even :: "real \<Rightarrow> int" where
  "round_half_even q =
     (let f = \<lfloor>q\<rfloor>; d = q - of_int f
      in if d < 1 / 2 then f else if 1 / 2 < d then f + 1 else if even f then f else f + 1)"

definition round_to :: "nat \<Rightarrow> real \<Rightarrow> real" where
  "round_to p x =
     (if x = 0 then 0
      else let e = expo x - (int p - 1)
           in of_int (round_half_even (x / pow2 e)) * pow2 e)"

definition ieee :: "nat \<Rightarrow> float_ops" where
  "ieee p = \<lparr>fadd = (\<lambda>a b. round_to p (a + b)), fdiv = (\<lambda>a n. round_to p (a / real n))\<rparr>"

definition binary64 :: float_ops where
  "binary64 = ieee 53"

definition binary32 :: float_ops where
  "binary32 = ieee 24"

section \<open>Properties\<close>

subsection \<open>\<^verbatim>\<open>get_pred\<close> is the row-wise argmax\<close>

lemma argmax_scan_inv:
  assumes "ys \<noteq> []" "i = length ys" "mi < length ys" "mv = ys ! mi"
    "\<forall>y \<in> set ys. y \<le> mv" "\<forall>j < mi. ys ! j < mv"
  shows "argmax_scan xs i mv mi < length (ys @ xs)
       \<and> (\<forall>y \<in> set (ys @ xs). y \<le> (ys @ xs) ! argmax_scan xs i mv mi)
       \<and> (\<forall>j < argmax_scan xs i mv mi. (ys @ xs) ! j < (ys @ xs) ! argmax_scan xs i mv mi)"
  using assms
proof (induction xs arbitrary: ys i mv mi)
  case Nil
  then show ?case by simp
next
  case (Cons x xs)
  show ?case
  proof (cases "mv < x")
    case True
    have a: "ys @ [x] \<noteq> []" "Suc i = length (ys @ [x])" "i < length (ys @ [x])"
      "x = (ys @ [x]) ! i"
      using Cons.prems by simp_all
    have b: "\<forall>y \<in> set (ys @ [x]). y \<le> x"
      using Cons.prems True by auto
    have c: "\<forall>j < i. (ys @ [x]) ! j < x"
      using Cons.prems True by (auto simp: nth_append dest!: nth_mem)
    from Cons.IH[OF a b c] True show ?thesis by simp
  next
    case False
    have a: "ys @ [x] \<noteq> []" "Suc i = length (ys @ [x])" "mi < length (ys @ [x])"
      "mv = (ys @ [x]) ! mi"
      using Cons.prems by (simp_all add: nth_append)
    have b: "\<forall>y \<in> set (ys @ [x]). y \<le> mv"
      using Cons.prems False by auto
    have c: "\<forall>j < mi. (ys @ [x]) ! j < mv"
      using Cons.prems by (auto simp: nth_append)
    from Cons.IH[OF a b c] False show ?thesis by simp
  qed
qed

lemma argmax_first_max:
  assumes "r \<noteq> []"
  shows "argmax r < length r \<and> r ! argmax r = Max (set r)
       \<and> (\<forall>j < argmax r. r ! j < r ! argmax r)"
proof -
  obtain x xs where r: "r = x # xs" using assms by (cases r) auto
  have "argmax_scan xs 1 x 0 < length ([x] @ xs)
       \<and> (\<forall>y \<in> set ([x] @ xs). y \<le> ([x] @ xs) ! argmax_scan xs 1 x 0)
       \<and> (\<forall>j < argmax_scan xs 1 x 0. ([x] @ xs) ! j < ([x] @ xs) ! argmax_scan xs 1 x 0)"
    by (rule argmax_scan_inv) simp_all
  then have k: "argmax r < length r" "\<forall>y \<in> set r. y \<le> r ! argmax r"
    "\<forall>j < argmax r. r ! j < r ! argmax r"
    by (simp_all add: r argmax_def)
  have "r ! argmax r \<in> set r" using k(1) by simp
  then have "Max (set r) = r ! argmax r"
    using k(2) by (intro Max_eqI) auto
  with k show ?thesis by simp
qed

text \<open>
  C8. \<^verbatim>\<open>get_pred\<close> is a function of its argument alone. On a two-dimensional array with at
  least one column it returns one index per row; the index lies inside the row, the
  row's value there is the row's maximum, and every earlier value is strictly smaller
  (the first maximum, as \<^verbatim>\<open>np.argmax\<close> picks it).
\<close>

theorem get_pred_rowwise_argmax:
  assumes "wf_ndarray a" and "0 < ncols a"
  shows "\<exists>ps. get_pred a = Inr ps \<and> length ps = length (rows a)
     \<and> (\<forall>i < length (rows a).
           ps ! i < ncols a
         \<and> rows a ! i ! (ps ! i) = Max (set (rows a ! i))
         \<and> (\<forall>j < ps ! i. rows a ! i ! j < rows a ! i ! (ps ! i)))"
proof -
  have ne: "\<And>i. i < length (rows a) \<Longrightarrow> rows a ! i \<noteq> [] \<and> length (rows a ! i) = ncols a"
    using assms by (auto simp: wf_ndarray_def list_all_length)
  have "\<And>i. i < length (rows a) \<Longrightarrow>
           argmax (rows a ! i) < ncols a
         \<and> rows a ! i ! argmax (rows a ! i) = Max (set (rows a ! i))
         \<and> (\<forall>j < argmax (rows a ! i). rows a ! i ! j < rows a ! i ! argmax (rows a ! i))"
    using ne argmax_first_max by metis
  then show ?thesis
    using assms(2) by (simp add: get_pred_def) metis
qed

theorem get_pred_rowwise_argmax_witness:
  "wf_ndarray (NDArray 3 [[1, 5, 5], [0, - 1, - 2]])
   \<and> get_pred (NDArray 3 [[1, 5, 5], [0, - 1, - 2]]) = Inr [1, 0]"
  using get_pred_rowwise_argmax [of "NDArray 3 [[1, 5, 5], [0, - 1, - 2]]"]
  by (simp add: wf_ndarray_def get_pred_def argmax_def)


subsection \<open>Evaluating concrete runs\<close>

lemmas toy_defs =
  toy_runtime_def toy_loaders_def toy_batch_def toy_logits_def toy_metric_def toy_session_def

lemmas run_defs =
  train_def test_def bind_def train_batch_def test_batch_def forward_inputs_def len_def
  reshape_def astype_int32_def mean_loss_def py_sum_def get_pred_def argmax_def exact_ops_def

lemma pair_of_snd: "snd p = r \<Longrightarrow> \<exists>tr. p = (tr, r)"
  by (cases p) simp

subsection \<open>The loops, step by step\<close>

lemma appended_append: "appended (xs @ ys) = appended xs @ appended ys"
  by (induction xs rule: appended.induct) simp_all

lemma py_sum_from: "foldl (+) a xs = a + sum_list xs" for a :: real
  by (induction xs arbitrary: a) simp_all

lemma exact_mean:
  assumes "\<forall>a b. fadd fl a b = a + b" and "\<forall>a n. fdiv fl a n = a / real n"
  shows "fdiv fl (foldl (fadd fl) 0 ls) (length ls) = sum_list ls / real (length ls)"
proof -
  have "fadd fl = (+)" using assms(1) by (intro ext) simp
  then show ?thesis using assms(2) by (simp add: py_sum_from)
qed

lemma mean_loss_Inr:
  "mean_loss fl ls = Inr m \<Longrightarrow>
     ls \<noteq> [] \<and> m = fdiv fl (foldl (fadd fl) 0 ls) (length ls)"
  by (auto simp: mean_loss_def py_sum_def split: if_splits)

lemma train_batch_Inr:
  assumes "train_batch rt s b = (tr, Inr (l, s'))"
  shows "\<exists>x t lg s1 s2. forward_inputs b = Inr (x, t)
      \<and> model_call rt s x t = Inr ((l, lg), s1)
      \<and> optimizer_step rt s1 = Inr s2 \<and> reset_grad rt s2 = Inr s'
      \<and> tr = [ModelCall x t, OptimizerStep, ResetGrad, LossAppend l]"
  using assms by (auto simp: train_batch_def split: sum.splits prod.splits)

lemma train_batch_ops_prefix:
  "prefix (filter is_runtime_op (fst (train_batch rt s b))) (batch_ops b)"
  by (auto simp: train_batch_def batch_ops_def split: sum.splits prod.splits)

lemma train_loop_Inr:
  "train_loop rt s ls bs = (tr, Inr (ls', s')) \<Longrightarrow>
     filter is_runtime_op tr = concat (map batch_ops bs)
   \<and> ls' = ls @ appended tr \<and> length (appended tr) = length bs
   \<and> (\<forall>b \<in> set bs. \<exists>x t. forward_inputs b = Inr (x, t))"
proof (induction bs arbitrary: s ls tr)
  case Nil
  then show ?case by simp
next
  case (Cons b bs)
  from Cons.prems obtain trb l s1 tr2 where
    b: "train_batch rt s b = (trb, Inr (l, s1))" and
    r: "train_loop rt s1 (ls @ [l]) bs = (tr2, Inr (ls', s'))" and
    tr: "tr = trb @ tr2"
    by (auto split: prod.splits sum.splits)
  from train_batch_Inr[OF b] obtain x t where
    fi: "forward_inputs b = Inr (x, t)" and
    trb: "trb = [ModelCall x t, OptimizerStep, ResetGrad, LossAppend l]"
    by blast
  from Cons.IH[OF r] fi trb tr show ?case
    by (simp add: batch_ops_def appended_append)
qed

lemma train_loop_ops_prefix:
  "prefix (filter is_runtime_op (fst (train_loop rt s ls bs))) (concat (map batch_ops bs))"
proof (induction bs arbitrary: s ls)
  case Nil
  then show ?case by simp
next
  case (Cons b bs)
  obtain trb r where b: "train_batch rt s b = (trb, r)" by (cases "train_batch rt s b")
  show ?case
  proof (cases r)
    case (Inl e)
    have "prefix (filter is_runtime_op trb) (batch_ops b)"
      using train_batch_ops_prefix[of rt s b] b by simp
    then show ?thesis using b Inl by (simp add: prefix_prefix)
  next
    case (Inr v)
    obtain l s1 where v: "v = (l, s1)" by (cases v)
    from train_batch_Inr[OF b[unfolded Inr v]] obtain x t where
      fi: "forward_inputs b = Inr (x, t)" and
      trb: "trb = [ModelCall x t, OptimizerStep, ResetGrad, LossAppend l]"
      by blast
    have bo: "batch_ops b = [ModelCall x t, OptimizerStep, ResetGrad]"
      using fi by (simp add: batch_ops_def)
    obtain tr2 r2 where r2: "train_loop rt s1 (ls @ [l]) bs = (tr2, r2)"
      by (cases "train_loop rt s1 (ls @ [l]) bs")
    show ?thesis
      using Cons.IH[of s1 "ls @ [l]"] b Inr v trb bo r2 by simp
  qed
qed

lemma train_loop_append:
  "train_loop rt s ls (pre @ post) =
     (case train_loop rt s ls pre of
        (tr, Inl e) \<Rightarrow> (tr, Inl e)
      | (tr, Inr (ls1, s1)) \<Rightarrow>
          (case train_loop rt s1 ls1 post of (tr2, r) \<Rightarrow> (tr @ tr2, r)))"
  by (induction pre arbitrary: s ls) (auto split: prod.splits sum.splits)

lemma train_Inr:
  assumes "train fl rt ld epoch s = (tr, Inr s')"
  shows "\<exists>tr1 ls. train_loop rt (model_train rt s) [] (train_loader ld) = (tr1, Inr (ls, s'))
      \<and> ls \<noteq> []
      \<and> tr = ModelTrain # tr1 @ [PrintTrain (epoch + 1) (fdiv fl (foldl (fadd fl) 0 ls) (length ls))]"
  using assms
  by (auto simp: train_def bind_def split: prod.splits sum.splits dest!: mean_loss_Inr)

lemma train_ops:
  "filter is_runtime_op (fst (train fl rt ld epoch s)) =
     filter is_runtime_op (fst (train_loop rt (model_train rt s) [] (train_loader ld)))"
  by (auto simp: train_def bind_def split: prod.splits sum.splits)

lemma train_calls:
  "filter is_model_call (fst (train fl rt ld epoch s)) =
     filter is_model_call (fst (train_loop rt (model_train rt s) [] (train_loader ld)))"
  by (auto simp: train_def bind_def split: prod.splits sum.splits)

lemma test_batch_Inr:
  assumes "test_batch rt ma s m b = (tr, Inr (l, s', m'))"
  shows "\<exists>x t lg preds. forward_inputs b = Inr (x, t)
      \<and> model_call rt s x t = Inr ((l, lg), s')
      \<and> get_pred lg = Inr preds \<and> add_batch ma m (snd b) preds = Inr m'
      \<and> tr = [ModelCall x t, MetricAddBatch (snd b) preds, LossAppend l]"
  using assms by (auto simp: test_batch_def split: sum.splits prod.splits)

lemma test_batch_events: "list_all is_eval_event (fst (test_batch rt ma s m b))"
  by (auto simp: test_batch_def split: sum.splits prod.splits)

lemma test_batch_calls_prefix:
  "prefix (filter is_model_call (fst (test_batch rt ma s m b))) (batch_call b)"
  by (auto simp: test_batch_def batch_call_def split: sum.splits prod.splits)

lemma test_loop_events: "list_all is_eval_event (fst (test_loop rt ma s m ls bs))"
proof (induction bs arbitrary: s m ls)
  case Nil
  then show ?case by simp
next
  case (Cons b bs)
  obtain trb r where b: "test_batch rt ma s m b = (trb, r)" by (cases "test_batch rt ma s m b")
  have e: "list_all is_eval_event trb" using test_batch_events[of rt ma s m b] b by simp
  show ?case
  proof (cases r)
    case (Inl e)
    then show ?thesis using b e by simp
  next
    case (Inr v)
    obtain l s1 m1 where v: "v = (l, s1, m1)" by (cases v)
    obtain tr2 r2 where r2: "test_loop rt ma s1 m1 (ls @ [l]) bs = (tr2, r2)"
      by (cases "test_loop rt ma s1 m1 (ls @ [l]) bs")
    show ?thesis using Cons.IH[of s1 m1 "ls @ [l]"] b e Inr v r2 by simp
  qed
qed

lemma test_loop_Inr:
  "test_loop rt ma s m ls bs = (tr, Inr (ls', s', m')) \<Longrightarrow>
     filter is_model_call tr = concat (map batch_call bs)
   \<and> ls' = ls @ appended tr \<and> length (appended tr) = length bs
   \<and> length (filter is_add_batch tr) = length bs"
proof (induction bs arbitrary: s m ls tr)
  case Nil
  then show ?case by simp
next
  case (Cons b bs)
  from Cons.prems obtain trb l s1 m1 tr2 where
    b: "test_batch rt ma s m b = (trb, Inr (l, s1, m1))" and
    r: "test_loop rt ma s1 m1 (ls @ [l]) bs = (tr2, Inr (ls', s', m'))" and
    tr: "tr = trb @ tr2"
    by (auto split: prod.splits sum.splits)
  from test_batch_Inr[OF b] obtain x t preds where
    fi: "forward_inputs b = Inr (x, t)" and
    trb: "trb = [ModelCall x t, MetricAddBatch (snd b) preds, LossAppend l]"
    by blast
  from Cons.IH[OF r] fi trb tr show ?case
    by (simp add: batch_call_def appended_append)
qed

lemma test_loop_calls_prefix:
  "prefix (filter is_model_call (fst (test_loop rt ma s m ls bs))) (concat (map batch_call bs))"
proof (induction bs arbitrary: s m ls)
  case Nil
  then show ?case by simp
next
  case (Cons b bs)
  obtain trb r where b: "test_batch rt ma s m b = (trb, r)" by (cases "test_batch rt ma s m b")
  show ?case
  proof (cases r)
    case (Inl e)
    have "prefix (filter is_model_call trb) (batch_call b)"
      using test_batch_calls_prefix[of rt ma s m b] b by simp
    then show ?thesis using b Inl by (simp add: prefix_prefix)
  next
    case (Inr v)
    obtain l s1 m1 where v: "v = (l, s1, m1)" by (cases v)
    from test_batch_Inr[OF b[unfolded Inr v]] obtain x t preds where
      fi: "forward_inputs b = Inr (x, t)" and
      trb: "trb = [ModelCall x t, MetricAddBatch (snd b) preds, LossAppend l]"
      by blast
    have bo: "batch_call b = [ModelCall x t]"
      using fi by (simp add: batch_call_def)
    obtain tr2 r2 where r2: "test_loop rt ma s1 m1 (ls @ [l]) bs = (tr2, r2)"
      by (cases "test_loop rt ma s1 m1 (ls @ [l]) bs")
    show ?thesis
      using Cons.IH[of s1 m1 "ls @ [l]"] b Inr v trb bo r2 by simp
  qed
qed

lemma test_loop_frame:
  assumes call: "\<And>s x t r s1. model_call rt s x t = Inr (r, s1) \<Longrightarrow> ckpt s1 = ckpt s"
  shows "test_loop rt ma s m ls bs = (tr, Inr (ls', s', m')) \<Longrightarrow> ckpt s' = ckpt s"
proof (induction bs arbitrary: s m ls tr)
  case Nil
  then show ?case by simp
next
  case (Cons b bs)
  from Cons.prems obtain trb l s1 m1 tr2 where
    b: "test_batch rt ma s m b = (trb, Inr (l, s1, m1))" and
    r: "test_loop rt ma s1 m1 (ls @ [l]) bs = (tr2, Inr (ls', s', m'))"
    by (auto split: prod.splits sum.splits)
  from test_batch_Inr[OF b] obtain x t lg where "model_call rt s x t = Inr ((l, lg), s1)"
    by blast
  then have "ckpt s1 = ckpt s" by (rule call)
  with Cons.IH[OF r] show ?case by simp
qed

lemma test_Inr:
  assumes "test fl rt ma ld epoch s = (tr, Inr s')"
  shows "\<exists>m0 tr1 ls m1 mets acc.
        metric_load ma ''accuracy'' = Inr m0
      \<and> test_loop rt ma (model_eval rt s) m0 [] (train_loader ld) = (tr1, Inr (ls, s', m1))
      \<and> compute ma m1 = Inr mets \<and> mets ''accuracy'' = Some acc \<and> ls \<noteq> []
      \<and> tr = ModelEval # MetricLoad ''accuracy'' # tr1
             @ [MetricCompute, PrintTest (epoch + 1) (fdiv fl (foldl (fadd fl) 0 ls) (length ls)) acc]"
  using assms
  by (auto simp: test_def bind_def split: prod.splits sum.splits option.splits
      dest!: mean_loss_Inr)

lemma test_trace_shape:
  "\<exists>tr1 tl. fst (test fl rt ma ld epoch s) = ModelEval # MetricLoad ''accuracy'' # tr1 @ tl
     \<and> list_all is_eval_event tr1
     \<and> (tl = [] \<or> tl = [MetricCompute] \<or> (\<exists>l acc. tl = [MetricCompute, PrintTest (epoch + 1) l acc]))"
proof (cases "metric_load ma ''accuracy''")
  case (Inl e)
  then show ?thesis by (simp add: test_def bind_def)
next
  case (Inr m0)
  obtain tr1 r where l: "test_loop rt ma (model_eval rt s) m0 [] (train_loader ld) = (tr1, r)"
    by (cases "test_loop rt ma (model_eval rt s) m0 [] (train_loader ld)")
  have e: "list_all is_eval_event tr1"
    using test_loop_events[of rt ma "model_eval rt s" m0 "[]" "train_loader ld"] l by simp
  show ?thesis
    using Inr l e
    by (cases r) (auto simp: test_def bind_def split: prod.splits sum.splits option.splits)
qed

lemma test_calls:
  "filter is_model_call (fst (test fl rt ma ld epoch s)) =
     (case metric_load ma ''accuracy'' of
        Inl e \<Rightarrow> []
      | Inr m0 \<Rightarrow> filter is_model_call
          (fst (test_loop rt ma (model_eval rt s) m0 [] (train_loader ld))))"
  by (auto simp: test_def bind_def split: prod.splits sum.splits option.splits)

lemma batch_ops_rotation:
  "i < length (concat (map batch_ops bs)) \<Longrightarrow>
     (i mod 3 = 0 \<longrightarrow> is_model_call (concat (map batch_ops bs) ! i))
   \<and> (i mod 3 = 1 \<longrightarrow> concat (map batch_ops bs) ! i = OptimizerStep)
   \<and> (i mod 3 = 2 \<longrightarrow> concat (map batch_ops bs) ! i = ResetGrad)"
proof (induction bs arbitrary: i)
  case Nil
  then show ?case by simp
next
  case (Cons b bs)
  show ?case
  proof (cases "forward_inputs b")
    case (Inl e)
    then have "batch_ops b = []" by (simp add: batch_ops_def)
    then show ?thesis using Cons by simp
  next
    case (Inr v)
    obtain x t where v: "v = (x, t)" by (cases v)
    have bo: "batch_ops b = [ModelCall x t, OptimizerStep, ResetGrad]"
      using Inr v by (simp add: batch_ops_def)
    consider "i = 0" | "i = 1" | "i = 2" | "3 \<le> i" by linarith
    then show ?thesis
    proof cases
      case 4
      then have m: "(i - 3) mod 3 = i mod 3" by (simp add: le_mod_geq)
      have n: "(concat (map batch_ops (b # bs))) ! i = concat (map batch_ops bs) ! (i - 3)"
        using 4 bo by (simp add: nth_append numeral_3_eq_3)
      have "i - 3 < length (concat (map batch_ops bs))"
        using Cons.prems 4 bo by simp
      from Cons.IH[OF this] m n show ?thesis by simp
    qed (simp_all add: bo)
  qed
qed

lemma prefix_nth: "prefix xs ys \<Longrightarrow> i < length xs \<Longrightarrow> xs ! i = ys ! i"
  by (auto simp: prefix_def nth_append)

lemma prefix_filter: "prefix xs ys \<Longrightarrow> prefix (filter P xs) (filter P ys)"
  by (auto simp: prefix_def)

lemma is_model_call_runtime_op:
  "filter is_model_call (filter is_runtime_op xs) = filter is_model_call xs"
  by (induction xs rule: appended.induct) simp_all

lemma batch_ops_calls:
  "filter is_model_call (concat (map batch_ops bs)) = concat (map batch_call bs)"
  by (induction bs) (auto simp: batch_ops_def batch_call_def split: sum.splits)

lemma list_all_weaken: "list_all P xs \<Longrightarrow> (\<And>x. P x \<Longrightarrow> Q x) \<Longrightarrow> list_all Q xs"
  by (induction xs) auto

lemma eval_events_no_compute:
  "list_all is_eval_event xs \<Longrightarrow> filter ((=) MetricCompute) xs = []"
  by (induction xs) (auto elim: is_eval_event.elims)

lemma train_test_loader: "train fl rt (ld\<lparr>test_loader := tsl\<rparr>) epoch s = train fl rt ld epoch s"
  by (simp add: train_def)

lemma test_test_loader: "test fl rt ma (ld\<lparr>test_loader := tsl\<rparr>) epoch s = test fl rt ma ld epoch s"
  by (simp add: test_def)

lemma epoch_loop_test_loader:
  "epoch_loop fl rt ma (ld\<lparr>test_loader := tsl\<rparr>) s epochs = epoch_loop fl rt ma ld s epochs"
  by (induction epochs arbitrary: s)
     (simp_all add: train_test_loader test_test_loader split: prod.splits sum.splits)

lemma test_loop_append:
  "test_loop rt ma s m ls (pre @ post) =
     (case test_loop rt ma s m ls pre of
        (tr, Inl e) \<Rightarrow> (tr, Inl e)
      | (tr, Inr (ls1, s1, m1)) \<Rightarrow>
          (case test_loop rt ma s1 m1 ls1 post of (tr2, r) \<Rightarrow> (tr @ tr2, r)))"
  by (induction pre arbitrary: s m ls) (auto split: prod.splits sum.splits)

lemma bind_Inr:
  "bind m f = (tr, Inr v) \<Longrightarrow>
     \<exists>tr1 u tr2. m = (tr1, Inr u) \<and> f u = (tr2, Inr v) \<and> tr = tr1 @ tr2"
  by (auto simp: bind_def split: prod.splits sum.splits)

lemma fst_bind:
  "fst (bind (tr0, r) f) = tr0 @ (case r of Inl e \<Rightarrow> [] | Inr v \<Rightarrow> fst (f v))"
  by (auto simp: bind_def split: prod.splits sum.splits)

subsection \<open>Replaying a trace\<close>

lemma replay_append:
  "replay rt s (xs @ ys) =
     (case replay rt s xs of
        Inl e \<Rightarrow> Inl e
      | Inr (rs1, s1) \<Rightarrow>
          (case replay rt s1 ys of
             Inl e \<Rightarrow> Inl e
           | Inr (rs2, s2) \<Rightarrow> Inr (rs1 @ rs2, s2)))"
  by (induction rt s xs rule: replay.induct) (auto split: sum.splits prod.splits)

lemma replay_adds_append:
  "replay_adds ma m (xs @ ys) =
     (case replay_adds ma m xs of Inl e \<Rightarrow> Inl e | Inr m1 \<Rightarrow> replay_adds ma m1 ys)"
  by (induction ma m xs rule: replay_adds.induct) (auto split: sum.splits)

lemma train_batch_replay:
  "train_batch rt s b = (tr, Inr (l, s')) \<Longrightarrow>
     \<exists>lg. replay rt s tr = Inr ([(l, lg)], s') \<and> appended tr = [l]"
  by (auto simp: train_batch_def split: sum.splits prod.splits)

lemma train_batch_replay_fail:
  "train_batch rt s b = (tr, Inl e) \<Longrightarrow>
     replay rt s tr = Inl e \<or> (\<exists>rs s''. replay rt s tr = Inr (rs, s''))"
  by (auto simp: train_batch_def split: sum.splits prod.splits)

lemma train_loop_replay:
  "train_loop rt s ls bs = (tr, Inr (ls', s')) \<Longrightarrow>
     \<exists>rs. replay rt s tr = Inr (rs, s') \<and> map fst rs = appended tr"
proof (induction bs arbitrary: s ls tr)
  case Nil
  then show ?case by simp
next
  case (Cons b bs)
  from Cons.prems obtain trb l s1 tr2 where
    b: "train_batch rt s b = (trb, Inr (l, s1))" and
    r: "train_loop rt s1 (ls @ [l]) bs = (tr2, Inr (ls', s'))" and
    tr: "tr = trb @ tr2"
    by (auto split: prod.splits sum.splits)
  from train_batch_replay[OF b] obtain lg where
    rb: "replay rt s trb = Inr ([(l, lg)], s1)" and ab: "appended trb = [l]" by blast
  from Cons.IH[OF r] obtain rs where
    rr: "replay rt s1 tr2 = Inr (rs, s')" and ar: "map fst rs = appended tr2" by blast
  show ?case
    using rb ab rr ar tr by (simp add: replay_append appended_append)
qed

lemma train_loop_replay_fail:
  "train_loop rt s ls bs = (tr, Inl e) \<Longrightarrow>
     replay rt s tr = Inl e \<or> (\<exists>rs s''. replay rt s tr = Inr (rs, s''))"
proof (induction bs arbitrary: s ls tr)
  case Nil
  then show ?case by simp
next
  case (Cons b bs)
  obtain trb r where b: "train_batch rt s b = (trb, r)" by (cases "train_batch rt s b")
  show ?case
  proof (cases r)
    case (Inl e')
    then have "tr = trb" "e' = e" using Cons.prems b by simp_all
    then show ?thesis using train_batch_replay_fail[of rt s b trb e] b Inl by simp
  next
    case (Inr v)
    obtain l s1 where v: "v = (l, s1)" by (cases v)
    obtain tr2 where
      r: "train_loop rt s1 (ls @ [l]) bs = (tr2, Inl e)" and tr: "tr = trb @ tr2"
      using Cons.prems b Inr v by (auto split: prod.splits sum.splits)
    from train_batch_replay[OF b[unfolded Inr v]] obtain lg where
      rb: "replay rt s trb = Inr ([(l, lg)], s1)" by blast
    from Cons.IH[OF r] rb tr show ?thesis
      by (auto simp: replay_append)
  qed
qed

lemma test_batch_replay:
  "test_batch rt ma s m b = (tr, Inr (l, s', m')) \<Longrightarrow>
     \<exists>lg preds. replay rt s tr = Inr ([(l, lg)], s') \<and> appended tr = [l]
       \<and> get_pred lg = Inr preds \<and> replay_adds ma m tr = Inr m'
       \<and> filter is_add_batch tr = [MetricAddBatch (snd b) preds]"
  by (auto simp: test_batch_def split: sum.splits prod.splits)

lemma test_loop_replay:
  "test_loop rt ma s m ls bs = (tr, Inr (ls', s', m')) \<Longrightarrow>
     \<exists>rs predss. replay rt s tr = Inr (rs, s') \<and> length rs = length bs
       \<and> map fst rs = appended tr
       \<and> map (\<lambda>r. get_pred (snd r)) rs = map Inr predss
       \<and> filter is_add_batch tr = map (\<lambda>(b, p). MetricAddBatch (snd b) p) (zip bs predss)
       \<and> replay_adds ma m tr = Inr m'"
proof (induction bs arbitrary: s m ls tr)
  case Nil
  then show ?case by simp
next
  case (Cons b bs)
  from Cons.prems obtain trb l s1 m1 tr2 where
    b: "test_batch rt ma s m b = (trb, Inr (l, s1, m1))" and
    r: "test_loop rt ma s1 m1 (ls @ [l]) bs = (tr2, Inr (ls', s', m'))" and
    tr: "tr = trb @ tr2"
    by (auto split: prod.splits sum.splits)
  from test_batch_replay[OF b] obtain lg preds where
    rb: "replay rt s trb = Inr ([(l, lg)], s1)" "appended trb = [l]"
      "get_pred lg = Inr preds" "replay_adds ma m trb = Inr m1"
      "filter is_add_batch trb = [MetricAddBatch (snd b) preds]"
    by blast
  from Cons.IH[OF r] obtain rs predss where
    rr: "replay rt s1 tr2 = Inr (rs, s')" "length rs = length bs"
      "map fst rs = appended tr2"
      "map (\<lambda>r. get_pred (snd r)) rs = map Inr predss"
      "filter is_add_batch tr2 = map (\<lambda>(b, p). MetricAddBatch (snd b) p) (zip bs predss)"
      "replay_adds ma m1 tr2 = Inr m'"
    by blast
  have "replay rt s tr = Inr ((l, lg) # rs, s') \<and> length ((l, lg) # rs) = length (b # bs)
       \<and> map fst ((l, lg) # rs) = appended tr
       \<and> map (\<lambda>r. get_pred (snd r)) ((l, lg) # rs) = map Inr (preds # predss)
       \<and> filter is_add_batch tr
           = map (\<lambda>(b, p). MetricAddBatch (snd b) p) (zip (b # bs) (preds # predss))
       \<and> replay_adds ma m tr = Inr m'"
    using rb rr tr by (simp add: replay_append replay_adds_append appended_append)
  then show ?case by blast
qed

subsection \<open>Order of the calls in a training epoch\<close>

text \<open>
  C1. Read off the trace of \<^verbatim>\<open>train\<close> the calls that reach the module and the optimizer.
  Whether the epoch completes or is cut short by an error, they are an initial segment of
  forward/backward, step, reset, repeated batch by batch over the loader; so position
  \<open>3k\<close> holds the forward/backward pass of a batch, \<open>3k + 1\<close> an optimizer step and
  \<open>3k + 2\<close> a gradient reset. Every step thus follows its batch's forward/backward pass,
  every reset follows its step, exactly one reset lies between two consecutive steps,
  and it comes before the next batch's pass. A completed epoch has the whole sequence.
  The trace is what was done to the runtime: applying the runtime's own forward/backward
  call, optimizer step and gradient reset in the order of the trace, from the state
  \<^verbatim>\<open>train\<close> started in, gives the state \<^verbatim>\<open>train\<close> ends in, with one forward/backward call per
  batch, whose returned losses are the losses appended. When \<^verbatim>\<open>train\<close> fails, replaying
  its trace fails with the same error, unless every logged call went through and the
  error is the notebook's own.
\<close>

theorem train_call_order:
  "prefix (filter is_runtime_op (fst (train fl rt ld epoch s)))
          (concat (map batch_ops (train_loader ld)))
   \<and> (\<forall>i < length (filter is_runtime_op (fst (train fl rt ld epoch s))).
         (i mod 3 = 0 \<longrightarrow> is_model_call (filter is_runtime_op (fst (train fl rt ld epoch s)) ! i))
       \<and> (i mod 3 = 1 \<longrightarrow> filter is_runtime_op (fst (train fl rt ld epoch s)) ! i = OptimizerStep)
       \<and> (i mod 3 = 2 \<longrightarrow> filter is_runtime_op (fst (train fl rt ld epoch s)) ! i = ResetGrad))
   \<and> (\<forall>s'. snd (train fl rt ld epoch s) = Inr s' \<longrightarrow>
         filter is_runtime_op (fst (train fl rt ld epoch s))
           = concat (map batch_ops (train_loader ld))
       \<and> (\<forall>b \<in> set (train_loader ld).
            \<exists>x t. batch_ops b = [ModelCall x t, OptimizerStep, ResetGrad])
       \<and> (\<exists>rs. replay rt s (fst (train fl rt ld epoch s)) = Inr (rs, s')
              \<and> length rs = length (train_loader ld)
              \<and> map fst rs = appended (fst (train fl rt ld epoch s))))
   \<and> (\<forall>e. snd (train fl rt ld epoch s) = Inl e \<longrightarrow>
         replay rt s (fst (train fl rt ld epoch s)) = Inl e
       \<or> (\<exists>rs s''. replay rt s (fst (train fl rt ld epoch s)) = Inr (rs, s'')))"
proof -
  let ?tr = "fst (train fl rt ld epoch s)"
  let ?ops = "filter is_runtime_op ?tr"
  let ?all = "concat (map batch_ops (train_loader ld))"
  have p: "prefix ?ops ?all"
    unfolding train_ops by (rule train_loop_ops_prefix)
  have r: "\<forall>i < length ?ops.
         (i mod 3 = 0 \<longrightarrow> is_model_call (?ops ! i))
       \<and> (i mod 3 = 1 \<longrightarrow> ?ops ! i = OptimizerStep)
       \<and> (i mod 3 = 2 \<longrightarrow> ?ops ! i = ResetGrad)"
  proof (intro allI impI)
    fix i assume i: "i < length ?ops"
    then have "i < length ?all" using p prefix_length_le less_le_trans by blast
    from batch_ops_rotation[OF this] prefix_nth[OF p i]
    show "(i mod 3 = 0 \<longrightarrow> is_model_call (?ops ! i))
       \<and> (i mod 3 = 1 \<longrightarrow> ?ops ! i = OptimizerStep)
       \<and> (i mod 3 = 2 \<longrightarrow> ?ops ! i = ResetGrad)" by simp
  qed
  have c: "\<forall>s'. snd (train fl rt ld epoch s) = Inr s' \<longrightarrow>
         ?ops = ?all
       \<and> (\<forall>b \<in> set (train_loader ld).
            \<exists>x t. batch_ops b = [ModelCall x t, OptimizerStep, ResetGrad])
       \<and> (\<exists>rs. replay rt s ?tr = Inr (rs, s')
              \<and> length rs = length (train_loader ld)
              \<and> map fst rs = appended ?tr)"
  proof (intro allI impI)
    fix s' assume "snd (train fl rt ld epoch s) = Inr s'"
    then have t: "train fl rt ld epoch s = (?tr, Inr s')"
      by (metis prod.collapse)
    from train_Inr[OF t] obtain tr1 ls where
      l: "train_loop rt (model_train rt s) [] (train_loader ld) = (tr1, Inr (ls, s'))" and
      tr: "?tr = ModelTrain # tr1
              @ [PrintTrain (epoch + 1) (fdiv fl (foldl (fadd fl) 0 ls) (length ls))]"
      by blast
    from train_loop_replay[OF l] obtain rs where
      rp: "replay rt (model_train rt s) tr1 = Inr (rs, s')" and
      ap: "map fst rs = appended tr1" by blast
    have len: "length (appended tr1) = length (train_loader ld)"
      using train_loop_Inr[OF l] by simp
    have "replay rt s ?tr = Inr (rs, s') \<and> length rs = length (train_loader ld)
        \<and> map fst rs = appended ?tr"
      unfolding tr using rp ap len
      by (simp add: replay_append appended_append) (metis length_map)
    moreover have "?ops = ?all
       \<and> (\<forall>b \<in> set (train_loader ld).
            \<exists>x t. batch_ops b = [ModelCall x t, OptimizerStep, ResetGrad])"
      using train_loop_Inr[OF l] l unfolding train_ops by (auto simp: batch_ops_def)
    ultimately show "?ops = ?all
       \<and> (\<forall>b \<in> set (train_loader ld).
            \<exists>x t. batch_ops b = [ModelCall x t, OptimizerStep, ResetGrad])
       \<and> (\<exists>rs. replay rt s ?tr = Inr (rs, s')
              \<and> length rs = length (train_loader ld)
              \<and> map fst rs = appended ?tr)"
      by blast
  qed
  have f: "\<forall>e. snd (train fl rt ld epoch s) = Inl e \<longrightarrow>
         replay rt s ?tr = Inl e \<or> (\<exists>rs s''. replay rt s ?tr = Inr (rs, s''))"
  proof (intro allI impI)
    fix e assume a: "snd (train fl rt ld epoch s) = Inl e"
    obtain tr1 r1 where l: "train_loop rt (model_train rt s) [] (train_loader ld) = (tr1, r1)"
      by (cases "train_loop rt (model_train rt s) [] (train_loader ld)")
    show "replay rt s ?tr = Inl e \<or> (\<exists>rs s''. replay rt s ?tr = Inr (rs, s''))"
    proof (cases r1)
      case (Inl e')
      then have "?tr = ModelTrain # tr1" "e' = e"
        using a l by (simp_all add: train_def bind_def)
      then show ?thesis
        using train_loop_replay_fail[OF l[unfolded Inl]] by simp
    next
      case (Inr v)
      obtain ls s1 where v: "v = (ls, s1)" by (cases v)
      from train_loop_replay[OF l[unfolded Inr v]] obtain rs where
        rp: "replay rt (model_train rt s) tr1 = Inr (rs, s1)" by blast
      have "?tr = ModelTrain # tr1"
        using a l Inr v by (auto simp: train_def bind_def split: sum.splits)
      then show ?thesis using rp by simp
    qed
  qed
  from p r c f show ?thesis by blast
qed

theorem train_call_order_witness:
  "snd (train exact_ops toy_runtime toy_loaders 0 0) = Inr 2
   \<and> length (filter is_runtime_op (fst (train exact_ops toy_runtime toy_loaders 0 0))) = 6
   \<and> filter is_runtime_op (fst (train exact_ops toy_runtime toy_loaders 0 0)) ! 1 = OptimizerStep
   \<and> filter is_runtime_op (fst (train exact_ops toy_runtime toy_loaders 0 0))
       = concat (map batch_ops (train_loader toy_loaders))
   \<and> replay toy_runtime 0 (fst (train exact_ops toy_runtime toy_loaders 0 0))
       = Inr ([(1 / 2, toy_logits [2 :: 32 word, 7]), (3 / 2, toy_logits [2 :: 32 word])], 2)
   \<and> snd (train exact_ops toy_runtime bad_loaders 0 0) = Inl ShapeMismatchFailure
   \<and> replay toy_runtime 0 (fst (train exact_ops toy_runtime bad_loaders 0 0))
       = Inl ShapeMismatchFailure"
proof -
  have h1: "snd (train exact_ops toy_runtime toy_loaders 0 0) = Inr 2"
    by (simp add: toy_defs run_defs)
  have h2: "snd (train exact_ops toy_runtime bad_loaders 0 0) = Inl ShapeMismatchFailure"
    by (simp add: bad_loaders_def toy_defs run_defs)
  have a: "appended (fst (train exact_ops toy_runtime toy_loaders 0 0)) = [1 / 2, 3 / 2]"
    by (simp add: toy_defs run_defs)
  have r2: "\<nexists>rs s''. replay toy_runtime 0 (fst (train exact_ops toy_runtime bad_loaders 0 0))
      = Inr (rs, s'')"
    by (simp add: bad_loaders_def toy_defs run_defs)
  have r1: "replay toy_runtime 0 (fst (train exact_ops toy_runtime toy_loaders 0 0))
       = Inr ([(1 / 2, toy_logits [2 :: 32 word, 7]), (3 / 2, toy_logits [2 :: 32 word])], 2)"
    by (simp add: toy_defs run_defs)
  from train_call_order [of exact_ops toy_runtime toy_loaders 0 0] h1
  have o: "length (filter is_runtime_op (fst (train exact_ops toy_runtime toy_loaders 0 0))) = 6
   \<and> filter is_runtime_op (fst (train exact_ops toy_runtime toy_loaders 0 0)) ! 1 = OptimizerStep
   \<and> filter is_runtime_op (fst (train exact_ops toy_runtime toy_loaders 0 0))
       = concat (map batch_ops (train_loader toy_loaders))"
    by (simp add: toy_defs run_defs batch_ops_def)
  from train_call_order [of exact_ops toy_runtime bad_loaders 0 0] h2 r2
  have "replay toy_runtime 0 (fst (train exact_ops toy_runtime bad_loaders 0 0))
       = Inl ShapeMismatchFailure"
    by blast
  with h1 h2 o r1 show ?thesis by blast
qed

subsection \<open>The reported epoch loss\<close>

lemma bit_length_values:
  "bit_length 9007199254740992 = 54" "bit_length 9007199254740993 = 54"
  "bit_length 4503599627370496 = 53"
  by (simp_all add: bit_length.simps)

lemma round_to_values:
  "round_to 53 9007199254740992 = 9007199254740992"
  "round_to 53 9007199254740993 = 9007199254740992"
  "round_to 53 4503599627370496 = 4503599627370496"
  "round_to 24 9007199254740992 = 9007199254740992"
  "round_to 24 9007199254740993 = 9007199254740992"
  "round_to 24 4503599627370496 = 4503599627370496"
  by (simp_all add: round_to_def expo_def bit_length_values round_half_even_def pow2_def Let_def)

text \<open>
  C2, as claimed: the loss printed at the end of an epoch is the arithmetic mean of the
  losses appended during the epoch. With the losses \<open>2^53\<close> and 1 the sum
  \<open>2^53 + 1\<close> rounds to \<open>2^53\<close> in binary64 as in binary32 arithmetic, and the loss
  printed is \<open>2^52\<close>, where the mean is \<open>2^52 + 1/2\<close>.
\<close>

theorem epoch_mean_loss_counterexample:
  "appended (fst (train binary64 steep_runtime toy_loaders 0 0)) = [9007199254740992, 1]
   \<and> last (fst (train binary64 steep_runtime toy_loaders 0 0)) = PrintTrain 1 4503599627370496
   \<and> sum_list [9007199254740992, 1] / real (length [9007199254740992, 1 :: real])
       = 4503599627370496 + 1 / 2
   \<and> last (fst (train binary64 steep_runtime toy_loaders 0 0))
       \<noteq> PrintTrain 1 (sum_list [9007199254740992, 1] / real (length [9007199254740992, 1 :: real]))
   \<and> last (fst (train binary32 steep_runtime toy_loaders 0 0)) = PrintTrain 1 4503599627370496"
  by (simp add: steep_runtime_def toy_defs train_def bind_def train_batch_def forward_inputs_def
      len_def reshape_def astype_int32_def mean_loss_def py_sum_def binary64_def binary32_def
      ieee_def round_to_values)

text \<open>
  C2, amended. When \<^verbatim>\<open>train\<close> or \<^verbatim>\<open>test\<close> completes an epoch, its last event is the print of the
  epoch, and the loss printed is what \<^verbatim>\<open>sum(losses)/len(losses)\<close> computes in floating
  point: the losses appended during this call are added up from 0, left to right in the
  order of the appends, each addition rounding, and the sum is divided by their number.
  Where addition and division are exact this is the arithmetic mean. The appended
  losses are the ones the forward calls returned, in the order of the calls; there is
  one per batch of the loader and at least one, and nothing appended in an earlier
  epoch enters, since each call starts from the empty list.
\<close>

theorem epoch_mean_loss:
  "(train fl rt ld epoch s = (tr, Inr s') \<longrightarrow>
       (\<exists>rs. replay rt s tr = Inr (rs, s') \<and> appended tr = map fst rs)
     \<and> appended tr \<noteq> [] \<and> length (appended tr) = length (train_loader ld)
     \<and> last tr = PrintTrain (epoch + 1)
          (fdiv fl (foldl (fadd fl) 0 (appended tr)) (length (appended tr)))
     \<and> ((\<forall>a b. fadd fl a b = a + b) \<and> (\<forall>a n. fdiv fl a n = a / real n) \<longrightarrow>
          last tr = PrintTrain (epoch + 1)
            (sum_list (appended tr) / real (length (appended tr)))))
   \<and> (test fl rt ma ld epoch s = (tr, Inr s') \<longrightarrow>
       (\<exists>rs. replay rt s tr = Inr (rs, s') \<and> appended tr = map fst rs)
     \<and> appended tr \<noteq> [] \<and> length (appended tr) = length (train_loader ld)
     \<and> (\<exists>acc. last tr = PrintTest (epoch + 1)
          (fdiv fl (foldl (fadd fl) 0 (appended tr)) (length (appended tr))) acc)
     \<and> ((\<forall>a b. fadd fl a b = a + b) \<and> (\<forall>a n. fdiv fl a n = a / real n) \<longrightarrow>
          (\<exists>acc. last tr = PrintTest (epoch + 1)
            (sum_list (appended tr) / real (length (appended tr))) acc)))"
proof (intro conjI impI)
  assume a: "train fl rt ld epoch s = (tr, Inr s')"
  from train_Inr[OF a] obtain tr1 ls where
    l: "train_loop rt (model_train rt s) [] (train_loader ld) = (tr1, Inr (ls, s'))" and
    ne: "ls \<noteq> []" and
    tr: "tr = ModelTrain # tr1
            @ [PrintTrain (epoch + 1) (fdiv fl (foldl (fadd fl) 0 ls) (length ls))]"
    by blast
  from train_loop_Inr[OF l] have ls: "ls = appended tr1"
    "length (appended tr1) = length (train_loader ld)"
    by simp_all
  have ap: "appended tr = ls" using tr ls by (simp add: appended_append)
  from train_loop_replay[OF l] obtain rs where
    rp: "replay rt (model_train rt s) tr1 = Inr (rs, s')" "map fst rs = appended tr1" by blast
  show "\<exists>rs. replay rt s tr = Inr (rs, s') \<and> appended tr = map fst rs"
    using rp ap ls unfolding tr by (simp add: replay_append)
  show "appended tr \<noteq> []" using ap ne by simp
  show "length (appended tr) = length (train_loader ld)" using ap ls by simp
  show p: "last tr = PrintTrain (epoch + 1)
          (fdiv fl (foldl (fadd fl) 0 (appended tr)) (length (appended tr)))"
    unfolding ap using tr by simp
  assume "(\<forall>a b. fadd fl a b = a + b) \<and> (\<forall>a n. fdiv fl a n = a / real n)"
  then have eq: "fdiv fl (foldl (fadd fl) 0 (appended tr)) (length (appended tr))
      = sum_list (appended tr) / real (length (appended tr))"
    by (intro exact_mean) simp_all
  from p[unfolded eq] show "last tr = PrintTrain (epoch + 1)
            (sum_list (appended tr) / real (length (appended tr)))" .
next
  assume a: "test fl rt ma ld epoch s = (tr, Inr s')"
  from test_Inr[OF a] obtain m0 tr1 ls m1 acc where
    l: "test_loop rt ma (model_eval rt s) m0 [] (train_loader ld) = (tr1, Inr (ls, s', m1))" and
    ne: "ls \<noteq> []" and
    tr: "tr = ModelEval # MetricLoad ''accuracy'' # tr1
             @ [MetricCompute,
                PrintTest (epoch + 1) (fdiv fl (foldl (fadd fl) 0 ls) (length ls)) acc]"
    by blast
  from test_loop_Inr[OF l] have ls: "ls = appended tr1"
    "length (appended tr1) = length (train_loader ld)"
    by simp_all
  have ap: "appended tr = ls" using tr ls by (simp add: appended_append)
  from test_loop_replay[OF l] obtain rs where
    rp: "replay rt (model_eval rt s) tr1 = Inr (rs, s')" "map fst rs = appended tr1" by blast
  show "\<exists>rs. replay rt s tr = Inr (rs, s') \<and> appended tr = map fst rs"
    using rp ap ls unfolding tr by (simp add: replay_append)
  show "appended tr \<noteq> []" using ap ne by simp
  show "length (appended tr) = length (train_loader ld)" using ap ls by simp
  show p: "\<exists>acc. last tr = PrintTest (epoch + 1)
          (fdiv fl (foldl (fadd fl) 0 (appended tr)) (length (appended tr))) acc"
    unfolding ap using tr by simp
  assume "(\<forall>a b. fadd fl a b = a + b) \<and> (\<forall>a n. fdiv fl a n = a / real n)"
  then have eq: "fdiv fl (foldl (fadd fl) 0 (appended tr)) (length (appended tr))
      = sum_list (appended tr) / real (length (appended tr))"
    by (intro exact_mean) simp_all
  from p[unfolded eq] show "\<exists>acc. last tr = PrintTest (epoch + 1)
            (sum_list (appended tr) / real (length (appended tr))) acc" .
qed

theorem epoch_mean_loss_witness:
  "\<exists>tr1 tr2. train exact_ops toy_runtime toy_loaders 0 0 = (tr1, Inr 2)
     \<and> test exact_ops toy_runtime toy_metric toy_loaders 0 2 = (tr2, Inr 2)
     \<and> appended tr1 = [1 / 2, 3 / 2] \<and> last tr1 = PrintTrain 1 1
     \<and> appended tr2 = [5 / 2, 5 / 2] \<and> last tr2 = PrintTest 1 (5 / 2) (2 / 3)"
proof -
  obtain tr1 where t1: "train exact_ops toy_runtime toy_loaders 0 0 = (tr1, Inr 2)"
    using pair_of_snd[of "train exact_ops toy_runtime toy_loaders 0 0" "Inr 2"]
    by (auto simp add: toy_defs run_defs)
  obtain tr2 where t2: "test exact_ops toy_runtime toy_metric toy_loaders 0 2 = (tr2, Inr 2)"
    using pair_of_snd[of "test exact_ops toy_runtime toy_metric toy_loaders 0 2" "Inr 2"]
    by (auto simp add: toy_defs run_defs)
  have e: "(\<forall>a b. fadd exact_ops a b = a + b) \<and> (\<forall>a n. fdiv exact_ops a n = a / real n)"
    by (simp add: exact_ops_def)
  have a1: "appended tr1 = [1 / 2, 3 / 2]"
    using t1 by (auto simp add: toy_defs run_defs)
  have a2: "appended tr2 = [5 / 2, 5 / 2]"
    using t2 by (auto simp add: toy_defs run_defs)
  have c2: "last tr2 = PrintTest 1 (5 / 2) (2 / 3)"
    using t2 by (auto simp add: toy_defs run_defs)
  from epoch_mean_loss [where fl = exact_ops and rt = toy_runtime and ld = toy_loaders
      and epoch = 0 and s = 0 and tr = tr1 and s' = 2 and ma = toy_metric] t1 e a1
  have "last tr1 = PrintTrain 1 1" by simp
  moreover from epoch_mean_loss [where fl = exact_ops and rt = toy_runtime and ld = toy_loaders
      and epoch = 0 and s = 2 and tr = tr2 and s' = 2 and ma = toy_metric] t2 e a2 c2
  have "last tr2 = PrintTest 1 (5 / 2) (2 / 3)" by simp
  ultimately show ?thesis using t1 t2 a1 a2 by blast
qed

subsection \<open>The evaluation loop leaves the runtime's parameters alone\<close>

text \<open>
  C4, as claimed: the predictions and the losses of each batch are routed into the
  metric aggregator. The aggregator is handed the labels and the predictions of each
  batch, and no loss: a runtime whose losses are all higher by 1 leads to the same calls
  of \<^verbatim>\<open>add_batch\<close> and to the same accuracy, while the appended and the printed losses
  differ.
\<close>

theorem aggregator_gets_no_loss_counterexample:
  "filter is_add_batch (fst (test exact_ops toy_runtime toy_metric toy_loaders 0 2))
     = [MetricAddBatch [2, 7] [2, 2], MetricAddBatch [2] [2]]
   \<and> appended (fst (test exact_ops toy_runtime toy_metric toy_loaders 0 2)) = [5 / 2, 5 / 2]
   \<and> last (fst (test exact_ops toy_runtime toy_metric toy_loaders 0 2))
       = PrintTest 1 (5 / 2) (2 / 3)
   \<and> filter is_add_batch (fst (test exact_ops costly_runtime toy_metric toy_loaders 0 2))
     = [MetricAddBatch [2, 7] [2, 2], MetricAddBatch [2] [2]]
   \<and> appended (fst (test exact_ops costly_runtime toy_metric toy_loaders 0 2)) = [7 / 2, 7 / 2]
   \<and> last (fst (test exact_ops costly_runtime toy_metric toy_loaders 0 2))
       = PrintTest 1 (7 / 2) (2 / 3)"
  by (simp add: costly_runtime_def toy_defs run_defs)

text \<open>
  C4, amended. The trace of \<^verbatim>\<open>test\<close> never holds an optimizer step, a gradient reset or a
  switch to training mode, and at most one \<^verbatim>\<open>metric.compute()\<close>. A completed epoch is: the
  switch to evaluation mode, the load of the metric, then per batch of the training
  loader one forward call, one \<^verbatim>\<open>add_batch\<close> and the append of the loss, then exactly one
  \<^verbatim>\<open>compute\<close> and the print. The trace is what was done to the collaborators: applying
  the runtime's mode switch and forward call in the order of the trace gives the state
  \<^verbatim>\<open>test\<close> ends in; each \<^verbatim>\<open>add_batch\<close> is handed the labels of its batch and \<^verbatim>\<open>get_pred\<close> of
  the logits the forward call on that batch returned; the losses returned go to the
  list of losses; and the accuracy printed is the entry \<^verbatim>\<open>"accuracy"\<close> of what the
  library's \<^verbatim>\<open>compute\<close> returns on the aggregator after these calls of \<^verbatim>\<open>add_batch\<close>. Any
  part \<open>ckpt\<close> of the runtime state that the mode switch and the forward call leave
  alone is the same after the epoch as before.
\<close>

theorem test_is_forward_only:
  "list_all (\<lambda>e. e \<noteq> OptimizerStep \<and> e \<noteq> ResetGrad \<and> e \<noteq> ModelTrain)
            (fst (test fl rt ma ld epoch s))
   \<and> length (filter ((=) MetricCompute) (fst (test fl rt ma ld epoch s))) \<le> 1
   \<and> (test fl rt ma ld epoch s = (tr, Inr s') \<longrightarrow>
        (\<exists>body l acc rs predss m0 m1 mets.
            tr = ModelEval # MetricLoad ''accuracy'' # body
                   @ [MetricCompute, PrintTest (epoch + 1) l acc]
          \<and> list_all is_eval_event body
          \<and> filter is_model_call body = concat (map batch_call (train_loader ld))
          \<and> length (filter is_add_batch body) = length (train_loader ld)
          \<and> length (filter ((=) MetricCompute) tr) = 1
          \<and> replay rt s tr = Inr (rs, s') \<and> length rs = length (train_loader ld)
          \<and> appended tr = map fst rs
          \<and> map (\<lambda>r. get_pred (snd r)) rs = map Inr predss
          \<and> filter is_add_batch tr
              = map (\<lambda>(b, p). MetricAddBatch (snd b) p) (zip (train_loader ld) predss)
          \<and> metric_load ma ''accuracy'' = Inr m0
          \<and> replay_adds ma m0 tr = Inr m1
          \<and> compute ma m1 = Inr mets \<and> mets ''accuracy'' = Some acc))
   \<and> ((\<forall>u. ckpt (model_eval rt u) = ckpt u)
        \<and> (\<forall>u x t r u'. model_call rt u x t = Inr (r, u') \<longrightarrow> ckpt u' = ckpt u)
        \<and> test fl rt ma ld epoch s = (tr, Inr s')
      \<longrightarrow> ckpt s' = ckpt s)"
proof (intro conjI impI)
  obtain tr1 tl where
    sh: "fst (test fl rt ma ld epoch s) = ModelEval # MetricLoad ''accuracy'' # tr1 @ tl" and
    ev: "list_all is_eval_event tr1" and
    tl: "tl = [] \<or> tl = [MetricCompute]
         \<or> (\<exists>l acc. tl = [MetricCompute, PrintTest (epoch + 1) l acc])"
    using test_trace_shape[of fl rt ma ld epoch s] by blast
  have "list_all (\<lambda>e. e \<noteq> OptimizerStep \<and> e \<noteq> ResetGrad \<and> e \<noteq> ModelTrain) tr1"
    using ev by (rule list_all_weaken) (auto elim: is_eval_event.elims)
  then show "list_all (\<lambda>e. e \<noteq> OptimizerStep \<and> e \<noteq> ResetGrad \<and> e \<noteq> ModelTrain)
            (fst (test fl rt ma ld epoch s))"
    using sh tl by auto
  show "length (filter ((=) MetricCompute) (fst (test fl rt ma ld epoch s))) \<le> 1"
    using sh tl eval_events_no_compute[OF ev] by auto
next
  assume a: "test fl rt ma ld epoch s = (tr, Inr s')"
  from test_Inr[OF a] obtain m0 tr1 ls m1 mets acc where
    m0: "metric_load ma ''accuracy'' = Inr m0" and
    l: "test_loop rt ma (model_eval rt s) m0 [] (train_loader ld) = (tr1, Inr (ls, s', m1))" and
    c: "compute ma m1 = Inr mets" "mets ''accuracy'' = Some acc" and
    tr: "tr = ModelEval # MetricLoad ''accuracy'' # tr1
             @ [MetricCompute,
                PrintTest (epoch + 1) (fdiv fl (foldl (fadd fl) 0 ls) (length ls)) acc]"
    by blast
  have ev: "list_all is_eval_event tr1"
    using test_loop_events[of rt ma "model_eval rt s" m0 "[]" "train_loader ld"] l by simp
  from test_loop_replay[OF l] obtain rs predss where
    rp: "replay rt (model_eval rt s) tr1 = Inr (rs, s')" "length rs = length (train_loader ld)"
      "map fst rs = appended tr1"
      "map (\<lambda>r. get_pred (snd r)) rs = map Inr predss"
      "filter is_add_batch tr1
         = map (\<lambda>(b, p). MetricAddBatch (snd b) p) (zip (train_loader ld) predss)"
      "replay_adds ma m0 tr1 = Inr m1"
    by blast
  have 1: "replay rt s tr = Inr (rs, s')"
    unfolding tr using rp(1) by (simp add: replay_append)
  have 2: "appended tr = map fst rs"
    unfolding tr using rp(3) by (simp add: appended_append)
  have 3: "filter is_add_batch tr
         = map (\<lambda>(b, p). MetricAddBatch (snd b) p) (zip (train_loader ld) predss)"
    unfolding tr using rp(5) by simp
  have 4: "replay_adds ma m0 tr = Inr m1"
    unfolding tr using rp(6) by (simp add: replay_adds_append)
  have 5: "length (filter ((=) MetricCompute) tr) = 1"
    unfolding tr using eval_events_no_compute[OF ev] by simp
  from test_loop_Inr[OF l] have 6:
    "filter is_model_call tr1 = concat (map batch_call (train_loader ld))"
    "length (filter is_add_batch tr1) = length (train_loader ld)"
    by simp_all
  from tr ev 6 5 1 rp(2) 2 rp(4) 3 m0 4 c
  show "\<exists>body l acc rs predss m0 m1 mets.
            tr = ModelEval # MetricLoad ''accuracy'' # body
                   @ [MetricCompute, PrintTest (epoch + 1) l acc]
          \<and> list_all is_eval_event body
          \<and> filter is_model_call body = concat (map batch_call (train_loader ld))
          \<and> length (filter is_add_batch body) = length (train_loader ld)
          \<and> length (filter ((=) MetricCompute) tr) = 1
          \<and> replay rt s tr = Inr (rs, s') \<and> length rs = length (train_loader ld)
          \<and> appended tr = map fst rs
          \<and> map (\<lambda>r. get_pred (snd r)) rs = map Inr predss
          \<and> filter is_add_batch tr
              = map (\<lambda>(b, p). MetricAddBatch (snd b) p) (zip (train_loader ld) predss)
          \<and> metric_load ma ''accuracy'' = Inr m0
          \<and> replay_adds ma m0 tr = Inr m1
          \<and> compute ma m1 = Inr mets \<and> mets ''accuracy'' = Some acc"
    by blast
next
  assume a: "(\<forall>u. ckpt (model_eval rt u) = ckpt u)
        \<and> (\<forall>u x t r u'. model_call rt u x t = Inr (r, u') \<longrightarrow> ckpt u' = ckpt u)
        \<and> test fl rt ma ld epoch s = (tr, Inr s')"
  from test_Inr[of fl rt ma ld epoch s tr s'] a obtain m0 tr1 ls m1 where
    l: "test_loop rt ma (model_eval rt s) m0 [] (train_loader ld) = (tr1, Inr (ls, s', m1))"
    by blast
  have "ckpt s' = ckpt (model_eval rt s)"
    using a by (intro test_loop_frame[OF _ l]) blast
  then show "ckpt s' = ckpt s" using a by simp
qed

theorem test_is_forward_only_witness:
  "\<exists>tr. test exact_ops toy_runtime toy_metric toy_loaders 0 2 = (tr, Inr 2)
     \<and> length (filter ((=) MetricCompute) tr) = 1
     \<and> filter is_add_batch tr = [MetricAddBatch [2, 7] [2, 2], MetricAddBatch [2] [2]]
     \<and> replay_adds toy_metric (0, 0) tr = Inr (2, 3)
     \<and> last tr = PrintTest 1 (5 / 2) (2 / 3)
     \<and> list_all (\<lambda>e. e \<noteq> OptimizerStep \<and> e \<noteq> ResetGrad \<and> e \<noteq> ModelTrain) tr"
proof -
  have h1: "\<forall>u. id (model_eval toy_runtime u) = id u"
    by (simp add: toy_runtime_def)
  have h2: "\<forall>u x t r u'. model_call toy_runtime u x t = Inr (r, u') \<longrightarrow> id u' = id u"
    by (auto simp: toy_runtime_def split: if_splits)
  obtain tr where t: "test exact_ops toy_runtime toy_metric toy_loaders 0 2 = (tr, Inr 2)"
    using pair_of_snd[of "test exact_ops toy_runtime toy_metric toy_loaders 0 2" "Inr 2"]
    by (auto simp add: toy_defs run_defs)
  have ab: "filter is_add_batch tr = [MetricAddBatch [2, 7] [2, 2], MetricAddBatch [2] [2]]"
    using t by (auto simp add: toy_defs run_defs)
  have ra: "replay_adds toy_metric (0, 0) tr = Inr (2, 3)"
    using t by (auto simp add: toy_defs run_defs)
  have la: "last tr = PrintTest 1 (5 / 2) (2 / 3)"
    using t by (auto simp add: toy_defs run_defs)
  from test_is_forward_only [of exact_ops toy_runtime toy_metric toy_loaders 0 2 tr 2 id]
    h1 h2 t ab ra la
  show ?thesis by auto
qed

subsection \<open>Which loader the loops read\<close>

text \<open>
  C5. \<^verbatim>\<open>train\<close>, \<^verbatim>\<open>test\<close> and the epoch loop do not depend on the test loader: replacing it
  changes nothing. The forward calls of both loops are on the batches of the training
  loader, in order. The inference cells do not depend on the training loader, and on
  the test loader only through the first example of its first batch.
\<close>

theorem loops_read_train_loader:
  "train fl rt (ld\<lparr>test_loader := tsl\<rparr>) epoch s = train fl rt ld epoch s
   \<and> test fl rt ma (ld\<lparr>test_loader := tsl\<rparr>) epoch s = test fl rt ma ld epoch s
   \<and> epoch_loop fl rt ma (ld\<lparr>test_loader := tsl\<rparr>) s epochs = epoch_loop fl rt ma ld s epochs
   \<and> prefix (filter is_model_call (fst (train fl rt ld epoch s)))
            (concat (map batch_call (train_loader ld)))
   \<and> prefix (filter is_model_call (fst (test fl rt ma ld epoch s)))
            (concat (map batch_call (train_loader ld)))
   \<and> (\<forall>s'. snd (test fl rt ma ld epoch s) = Inr s' \<longrightarrow>
         filter is_model_call (fst (test fl rt ma ld epoch s))
           = concat (map batch_call (train_loader ld)))
   \<and> run_inferencing rt (ld\<lparr>train_loader := trl\<rparr>) s = run_inferencing rt ld s
   \<and> (first_test_example ld = first_test_example ld' \<longrightarrow>
         run_inferencing rt ld s = run_inferencing rt ld' s)"
proof (intro conjI allI impI)
  show "prefix (filter is_model_call (fst (train fl rt ld epoch s)))
            (concat (map batch_call (train_loader ld)))"
    using prefix_filter[OF train_loop_ops_prefix[of rt "model_train rt s" "[]" "train_loader ld"],
        of is_model_call]
    by (simp only: train_calls is_model_call_runtime_op batch_ops_calls)
  show "prefix (filter is_model_call (fst (test fl rt ma ld epoch s)))
            (concat (map batch_call (train_loader ld)))"
    by (cases "metric_load ma ''accuracy''") (simp_all add: test_calls test_loop_calls_prefix)
next
  fix s' assume "snd (test fl rt ma ld epoch s) = Inr s'"
  then have "test fl rt ma ld epoch s = (fst (test fl rt ma ld epoch s), Inr s')"
    by (metis prod.collapse)
  from test_Inr[OF this] obtain m0 tr1 ls m1 where
    m: "metric_load ma ''accuracy'' = Inr m0" and
    l: "test_loop rt ma (model_eval rt s) m0 [] (train_loader ld) = (tr1, Inr (ls, s', m1))"
    by blast
  from test_loop_Inr[OF l] m l
  show "filter is_model_call (fst (test fl rt ma ld epoch s))
           = concat (map batch_call (train_loader ld))"
    by (simp add: test_calls)
next
  show "run_inferencing rt (ld\<lparr>train_loader := trl\<rparr>) s = run_inferencing rt ld s"
    by (simp add: run_inferencing_def first_test_example_def)
next
  assume "first_test_example ld = first_test_example ld'"
  then show "run_inferencing rt ld s = run_inferencing rt ld' s"
    by (simp add: run_inferencing_def)
qed (simp_all add: train_test_loader test_test_loader epoch_loop_test_loader)

theorem loops_read_train_loader_witness:
  "first_test_example toy_loaders = first_test_example other_loaders
   \<and> test_loader toy_loaders \<noteq> test_loader other_loaders
   \<and> snd (test exact_ops toy_runtime toy_metric toy_loaders 0 2) = Inr 2
   \<and> run_inferencing toy_runtime toy_loaders 2 = run_inferencing toy_runtime other_loaders 2
   \<and> filter is_model_call (fst (test exact_ops toy_runtime toy_metric toy_loaders 0 2))
       = concat (map batch_call (train_loader toy_loaders))"
proof -
  have h1: "first_test_example toy_loaders = first_test_example other_loaders"
    by (simp add: first_test_example_def other_loaders_def toy_loaders_def)
  have h2: "snd (test exact_ops toy_runtime toy_metric toy_loaders 0 2) = Inr 2"
    by (simp add: toy_defs run_defs)
  have h3: "test_loader toy_loaders \<noteq> test_loader other_loaders"
    by (simp add: other_loaders_def toy_loaders_def)
  from loops_read_train_loader [where rt = toy_runtime and ld = toy_loaders and epoch = 0
      and s = 2 and ma = toy_metric and ld' = other_loaders] h1 h2 h3
  show ?thesis by blast
qed

subsection \<open>A loader without batches\<close>

text \<open>
  C10, as claimed: on a loader without batches both loops fail with
  \<^verbatim>\<open>ZeroDivisionError\<close>. In \<^verbatim>\<open>test\<close> the call \<^verbatim>\<open>metric.compute()\<close> comes before the division;
  with an aggregator that raises when nothing was added, that error is the one the
  caller sees.
\<close>

theorem empty_loader_counterexample:
  "test exact_ops toy_runtime toy_metric no_batches 0 0
     = ([ModelEval, MetricLoad ''accuracy'', MetricCompute], Inl ValueError)
   \<and> snd (test exact_ops toy_runtime toy_metric no_batches 0 0) \<noteq> Inl ZeroDivisionError"
  by (simp add: no_batches_def toy_defs run_defs)

text \<open>
  C10, amended. On a loader without batches \<^verbatim>\<open>train\<close> fails with \<^verbatim>\<open>ZeroDivisionError\<close>
  right after the mode switch. \<^verbatim>\<open>test\<close> fails too and prints nothing: with
  \<^verbatim>\<open>ZeroDivisionError\<close> when the metric loads and \<^verbatim>\<open>compute\<close> returns, and with the error of
  \<^verbatim>\<open>compute\<close> when that raises.
\<close>

theorem empty_loader_fails:
  "train_loader ld = [] \<longrightarrow>
       train fl rt ld epoch s = ([ModelTrain], Inl ZeroDivisionError)
     \<and> (\<exists>tr e. test fl rt ma ld epoch s = (tr, Inl e))
     \<and> (\<forall>m mets. metric_load ma ''accuracy'' = Inr m \<and> compute ma m = Inr mets \<longrightarrow>
           test fl rt ma ld epoch s
             = ([ModelEval, MetricLoad ''accuracy'', MetricCompute], Inl ZeroDivisionError))
     \<and> (\<forall>m e. metric_load ma ''accuracy'' = Inr m \<and> compute ma m = Inl e \<longrightarrow>
           test fl rt ma ld epoch s
             = ([ModelEval, MetricLoad ''accuracy'', MetricCompute], Inl e))"
  by (auto simp: train_def test_def bind_def mean_loss_def split: sum.splits)

theorem empty_loader_fails_witness:
  "train_loader no_batches = []
   \<and> metric_load lenient_metric ''accuracy'' = Inr (0, 0)
   \<and> compute lenient_metric (0, 0) = Inr [''accuracy'' \<mapsto> 0]
   \<and> metric_load toy_metric ''accuracy'' = Inr (0, 0)
   \<and> compute toy_metric (0, 0) = Inl ValueError
   \<and> train exact_ops toy_runtime no_batches 0 0 = ([ModelTrain], Inl ZeroDivisionError)
   \<and> test exact_ops toy_runtime lenient_metric no_batches 0 0
       = ([ModelEval, MetricLoad ''accuracy'', MetricCompute], Inl ZeroDivisionError)
   \<and> test exact_ops toy_runtime toy_metric no_batches 0 0
       = ([ModelEval, MetricLoad ''accuracy'', MetricCompute], Inl ValueError)"
  using empty_loader_fails [of no_batches exact_ops toy_runtime 0 0 lenient_metric]
        empty_loader_fails [of no_batches exact_ops toy_runtime 0 0 toy_metric]
  by (simp add: no_batches_def lenient_metric_def toy_metric_def)

subsection \<open>Errors of the runtime end the run\<close>

text \<open>
  C9. Let the batches before \<open>b\<close> go through, and let the runtime fail on \<open>b\<close>: in the
  forward/backward pass, in the optimizer step or in the gradient reset. Then \<^verbatim>\<open>train\<close>
  returns this error, and its trace ends with the one call that failed: the call is
  not made again, and no later batch is touched. The epoch loop returns the same error
  with the same trace, so neither \<^verbatim>\<open>test\<close> nor a later epoch runs. Likewise, when the
  forward call fails in \<^verbatim>\<open>test\<close>, \<^verbatim>\<open>test\<close> and the epoch loop return that error and their
  traces end with the failed call.
\<close>

theorem runtime_error_aborts:
  "(train_loader ld = pre @ b # post
     \<and> train_loop rt (model_train rt s) [] pre = (tr1, Inr (ls1, s1))
     \<and> forward_inputs b = Inr (x, t)
     \<and> (model_call rt s1 x t = Inl e \<and> trb = [ModelCall x t]
        \<or> (\<exists>r s2. model_call rt s1 x t = Inr (r, s2) \<and> optimizer_step rt s2 = Inl e
              \<and> trb = [ModelCall x t, OptimizerStep])
        \<or> (\<exists>r s2 s3. model_call rt s1 x t = Inr (r, s2) \<and> optimizer_step rt s2 = Inr s3
              \<and> reset_grad rt s3 = Inl e \<and> trb = [ModelCall x t, OptimizerStep, ResetGrad]))
    \<longrightarrow> train fl rt ld epoch s = (ModelTrain # tr1 @ trb, Inl e)
      \<and> epoch_loop fl rt ma ld s (epoch # epochs) = (ModelTrain # tr1 @ trb, Inl e))
   \<and> (train_loader ld = pre @ b # post
     \<and> train fl rt ld epoch s = (trT, Inr sT)
     \<and> metric_load ma ''accuracy'' = Inr m0
     \<and> test_loop rt ma (model_eval rt sT) m0 [] pre = (tr1, Inr (ls1, s1, m1))
     \<and> forward_inputs b = Inr (x, t)
     \<and> model_call rt s1 x t = Inl e
    \<longrightarrow> test fl rt ma ld epoch sT
          = (ModelEval # MetricLoad ''accuracy'' # tr1 @ [ModelCall x t], Inl e)
      \<and> epoch_loop fl rt ma ld s (epoch # epochs)
          = (trT @ ModelEval # MetricLoad ''accuracy'' # tr1 @ [ModelCall x t], Inl e))"
proof (intro conjI impI)
  assume a: "train_loader ld = pre @ b # post
     \<and> train_loop rt (model_train rt s) [] pre = (tr1, Inr (ls1, s1))
     \<and> forward_inputs b = Inr (x, t)
     \<and> (model_call rt s1 x t = Inl e \<and> trb = [ModelCall x t]
        \<or> (\<exists>r s2. model_call rt s1 x t = Inr (r, s2) \<and> optimizer_step rt s2 = Inl e
              \<and> trb = [ModelCall x t, OptimizerStep])
        \<or> (\<exists>r s2 s3. model_call rt s1 x t = Inr (r, s2) \<and> optimizer_step rt s2 = Inr s3
              \<and> reset_grad rt s3 = Inl e \<and> trb = [ModelCall x t, OptimizerStep, ResetGrad]))"
  then have tb: "train_batch rt s1 b = (trb, Inl e)"
    by (auto simp: train_batch_def)
  have "train_loop rt (model_train rt s) [] (pre @ b # post) = (tr1 @ trb, Inl e)"
    using a tb by (simp add: train_loop_append)
  then show t: "train fl rt ld epoch s = (ModelTrain # tr1 @ trb, Inl e)"
    using a by (simp add: train_def bind_def)
  then show "epoch_loop fl rt ma ld s (epoch # epochs) = (ModelTrain # tr1 @ trb, Inl e)"
    by simp
next
  assume a: "train_loader ld = pre @ b # post
     \<and> train fl rt ld epoch s = (trT, Inr sT)
     \<and> metric_load ma ''accuracy'' = Inr m0
     \<and> test_loop rt ma (model_eval rt sT) m0 [] pre = (tr1, Inr (ls1, s1, m1))
     \<and> forward_inputs b = Inr (x, t)
     \<and> model_call rt s1 x t = Inl e"
  then have tb: "test_batch rt ma s1 m1 b = ([ModelCall x t], Inl e)"
    by (simp add: test_batch_def)
  have "test_loop rt ma (model_eval rt sT) m0 [] (pre @ b # post) = (tr1 @ [ModelCall x t], Inl e)"
    using a tb by (simp add: test_loop_append)
  then show t: "test fl rt ma ld epoch sT
          = (ModelEval # MetricLoad ''accuracy'' # tr1 @ [ModelCall x t], Inl e)"
    using a by (simp add: test_def bind_def)
  then show "epoch_loop fl rt ma ld s (epoch # epochs)
          = (trT @ ModelEval # MetricLoad ''accuracy'' # tr1 @ [ModelCall x t], Inl e)"
    using a by simp
qed

theorem runtime_error_aborts_witness:
  "\<exists>tr1 trT x1 x2.
       forward_inputs (toy_batch 2 [4]) = Inr (x1, [4])
     \<and> model_call toy_runtime 1 x1 [4] = Inl ShapeMismatchFailure
     \<and> train exact_ops toy_runtime bad_loaders 0 0
         = (ModelTrain # tr1 @ [ModelCall x1 [4]], Inl ShapeMismatchFailure)
     \<and> epoch_loop exact_ops toy_runtime toy_metric bad_loaders 0 range5
         = (ModelTrain # tr1 @ [ModelCall x1 [4]], Inl ShapeMismatchFailure)
     \<and> train exact_ops worn_runtime toy_loaders 0 0 = (trT, Inr 2)
     \<and> model_call worn_runtime 2 x2 [2, 7] = Inl RuntimeExecutionFailure
     \<and> epoch_loop exact_ops worn_runtime toy_metric toy_loaders 0 range5
         = (trT @ [ModelEval, MetricLoad ''accuracy'', ModelCall x2 [2, 7]],
            Inl RuntimeExecutionFailure)"
proof -
  let ?x1 = "Tensor [2, 784] (replicate 1568 0)"
  have l: "train_loader bad_loaders = [toy_batch 2 [2, 7]] @ toy_batch 2 [4] # [toy_batch 1 [2]]"
    by (simp add: bad_loaders_def)
  obtain tr1 where p: "train_loop toy_runtime (model_train toy_runtime 0) [] [toy_batch 2 [2, 7]]
      = (tr1, Inr ([1 / 2], 1))"
    using pair_of_snd[of "train_loop toy_runtime (model_train toy_runtime 0) [] [toy_batch 2 [2, 7]]"
        "Inr ([1 / 2], 1)"]
    by (auto simp add: toy_defs run_defs)
  have f: "forward_inputs (toy_batch 2 [4]) = Inr (?x1, [4])"
    by (simp add: toy_defs run_defs)
  have c: "model_call toy_runtime 1 ?x1 [4] = Inl ShapeMismatchFailure"
    by (simp add: toy_defs)
  have l2: "train_loader toy_loaders = [] @ toy_batch 2 [2, 7] # [toy_batch 1 [2]]"
    by (simp add: toy_loaders_def)
  obtain trT where t: "train exact_ops worn_runtime toy_loaders 0 0 = (trT, Inr 2)"
    using pair_of_snd[of "train exact_ops worn_runtime toy_loaders 0 0" "Inr 2"]
    by (auto simp add: worn_runtime_def toy_defs run_defs)
  have m: "metric_load toy_metric ''accuracy'' = Inr (0, 0)"
    by (simp add: toy_metric_def)
  have p2: "test_loop worn_runtime toy_metric (model_eval worn_runtime 2) (0, 0) [] []
      = ([], Inr ([], 2, (0, 0)))"
    by (simp add: worn_runtime_def toy_defs)
  have f2: "forward_inputs (toy_batch 2 [2, 7]) = Inr (?x1, [2, 7])"
    by (simp add: toy_defs run_defs)
  have c2: "model_call worn_runtime 2 ?x1 [2, 7] = Inl RuntimeExecutionFailure"
    by (simp add: worn_runtime_def toy_defs)
  from runtime_error_aborts [where rt = toy_runtime and ld = bad_loaders
      and pre = "[toy_batch 2 [2, 7]]" and b = "toy_batch 2 [4]" and post = "[toy_batch 1 [2]]"
      and s = 0 and ?tr1.0 = tr1 and ?ls1.0 = "[1 / 2]" and ?s1.0 = 1 and x = ?x1 and t = "[4]"
      and e = ShapeMismatchFailure and trb = "[ModelCall ?x1 [4]]" and epoch = 0
      and ma = toy_metric and epochs = "[1, 2, 3, 4]"] l p f c
  have r1: "train exact_ops toy_runtime bad_loaders 0 0
         = (ModelTrain # tr1 @ [ModelCall ?x1 [4]], Inl ShapeMismatchFailure)
     \<and> epoch_loop exact_ops toy_runtime toy_metric bad_loaders 0 range5
         = (ModelTrain # tr1 @ [ModelCall ?x1 [4]], Inl ShapeMismatchFailure)"
    by (simp add: range5_def)
  from runtime_error_aborts [where rt = worn_runtime and ld = toy_loaders
      and pre = "[]" and b = "toy_batch 2 [2, 7]" and post = "[toy_batch 1 [2]]"
      and s = 0 and trT = trT and sT = 2 and ?m0.0 = "(0, 0)" and ?m1.0 = "(0, 0)"
      and ?tr1.0 = "[]" and ?ls1.0 = "[]" and ?s1.0 = 2 and x = ?x1 and t = "[2, 7]"
      and e = RuntimeExecutionFailure and epoch = 0
      and ma = toy_metric and epochs = "[1, 2, 3, 4]"] l2 t m p2 f2 c2
  have r2: "epoch_loop exact_ops worn_runtime toy_metric toy_loaders 0 range5
         = (trT @ [ModelEval, MetricLoad ''accuracy'', ModelCall ?x1 [2, 7]],
            Inl RuntimeExecutionFailure)"
    by (simp add: range5_def)
  from f c r1 t c2 r2 show ?thesis by blast
qed

subsection \<open>Export and one inference run\<close>

text \<open>
  C6. The inference cells always begin by asking the module to export
  \<^verbatim>\<open>data/inference_model.onnx\<close> with the output list \<^verbatim>\<open>["output-0"]\<close>, and they call
  \<^verbatim>\<open>session.run\<close> at most once. When they complete, the trace is: the export, the creation
  of the session on that file, one \<^verbatim>\<open>session.run\<close>, the plot, the printed label. The run asks
  for the first output the session declares and feeds its first declared input with the
  first test example reshaped to shape (1, 784), the same 784 values; the printed label
  is \<^verbatim>\<open>get_pred\<close> of the first array returned.
\<close>

theorem inference_one_shot:
  "(\<exists>rest. fst (run_inferencing rt ld s)
       = ExportModel ''data/inference_model.onnx'' [''output-0''] # rest)
   \<and> length (filter is_session_run (fst (run_inferencing rt ld s))) \<le> 1
   \<and> (run_inferencing rt ld s = (tr, Inr label) \<longrightarrow>
        (\<exists>s1 sess data input_name output_name x outs img out0.
            export_model_for_inferencing rt s ''data/inference_model.onnx'' [''output-0'']
              = Inr s1
          \<and> inference_session rt s1 ''data/inference_model.onnx'' [''CPUExecutionProvider'']
              = Inr sess
          \<and> first_test_example ld = Inr data
          \<and> first (get_inputs sess) = Inr input_name
          \<and> first (get_outputs sess) = Inr output_name
          \<and> reshape data [1, 784] = Inr x \<and> shape x = [1, 784] \<and> vals x = vals data
          \<and> length (vals data) = 784
          \<and> run sess [output_name] [(input_name, x)] = Inr outs
          \<and> first outs = Inr out0 \<and> get_pred out0 = Inr label
          \<and> tr = [ExportModel ''data/inference_model.onnx'' [''output-0''],
                   NewSession ''data/inference_model.onnx'' [''CPUExecutionProvider''],
                   SessionRun [output_name] [(input_name, x)],
                   Imshow img, PltShow, PrintLabel label]))"
proof (intro conjI impI)
  show "\<exists>rest. fst (run_inferencing rt ld s)
       = ExportModel ''data/inference_model.onnx'' [''output-0''] # rest"
    by (simp add: run_inferencing_def fst_bind)
  show "length (filter is_session_run (fst (run_inferencing rt ld s))) \<le> 1"
    by (simp add: run_inferencing_def fst_bind split: sum.splits)
next
  assume a: "run_inferencing rt ld s = (tr, Inr label)"
  from a[unfolded run_inferencing_def] obtain s1 sess data input_name output_name x outs img out0
    where f: "export_model_for_inferencing rt s ''data/inference_model.onnx'' [''output-0'']
              = Inr s1"
      "inference_session rt s1 ''data/inference_model.onnx'' [''CPUExecutionProvider'']
              = Inr sess"
      "first_test_example ld = Inr data"
      "first (get_inputs sess) = Inr input_name"
      "first (get_outputs sess) = Inr output_name"
      "run sess [output_name] [(input_name, x)] = Inr outs"
      "first outs = Inr out0" "get_pred out0 = Inr label"
      "tr = [ExportModel ''data/inference_model.onnx'' [''output-0''],
                   NewSession ''data/inference_model.onnx'' [''CPUExecutionProvider''],
                   SessionRun [output_name] [(input_name, x)],
                   Imshow img, PltShow, PrintLabel label]"
      and r: "reshape data [1, 784] = Inr x"
    by (auto dest!: bind_Inr)
  from r have "shape x = [1, 784] \<and> vals x = vals data \<and> length (vals data) = 784"
    by (auto simp: reshape_def split: if_splits)
  with f r show "\<exists>s1 sess data input_name output_name x outs img out0.
            export_model_for_inferencing rt s ''data/inference_model.onnx'' [''output-0'']
              = Inr s1
          \<and> inference_session rt s1 ''data/inference_model.onnx'' [''CPUExecutionProvider'']
              = Inr sess
          \<and> first_test_example ld = Inr data
          \<and> first (get_inputs sess) = Inr input_name
          \<and> first (get_outputs sess) = Inr output_name
          \<and> reshape data [1, 784] = Inr x \<and> shape x = [1, 784] \<and> vals x = vals data
          \<and> length (vals data) = 784
          \<and> run sess [output_name] [(input_name, x)] = Inr outs
          \<and> first outs = Inr out0 \<and> get_pred out0 = Inr label
          \<and> tr = [ExportModel ''data/inference_model.onnx'' [''output-0''],
                   NewSession ''data/inference_model.onnx'' [''CPUExecutionProvider''],
                   SessionRun [output_name] [(input_name, x)],
                   Imshow img, PltShow, PrintLabel label]"
    by blast
qed

theorem inference_one_shot_witness:
  "\<exists>tr. run_inferencing toy_runtime toy_loaders 10 = (tr, Inr [2])
     \<and> length tr = 6
     \<and> tr ! 2 = SessionRun [''output-0''] [(''input-0'', Tensor [1, 784] (replicate 784 0))]
     \<and> length (filter is_session_run tr) = 1"
proof -
  obtain tr where t: "run_inferencing toy_runtime toy_loaders 10 = (tr, Inr [2])"
    using pair_of_snd[of "run_inferencing toy_runtime toy_loaders 10" "Inr [2]"]
    by (auto simp add: run_inferencing_def first_test_example_def index0_def first_def
        imshow_def toy_defs run_defs)
  have "first_test_example toy_loaders = Inr (Tensor [1, 28, 28] (replicate 784 0))"
    by (simp add: first_test_example_def index0_def toy_defs)
  with inference_one_shot [of toy_runtime toy_loaders 10 tr "[2]"] t
  show ?thesis
    by (auto simp add: toy_defs reshape_def first_def)
qed

end
